theory Spec2Isabelle
  imports Complex_Main
begin

section \<open>Python values used by the autoscaler\<close>

text \<open>
  The embedding follows \<^verbatim>\<open>src/autoscaler/autoscaler.py\<close>. Python floats are modelled as
  real numbers: finite values, no rounding, no NaN and no infinities. Exceptions are values
  of the type \<open>error\<close>; a Python function that may raise returns \<open>error + 'a\<close>.
\<close>

datatype error =
  TypeError | ValueError | KeyError | IndexError | AttributeError
  | ZeroDivisionError | OverflowError | UnicodeEncodeError | BrokenPipeError
  | RequestException

text \<open>
  A decoded JSON document, as \<^verbatim>\<open>json.loads\<close> or \<^verbatim>\<open>r.json()\<close> returns it. \<open>JNull\<close> is Python's
  \<^verbatim>\<open>None\<close>; \<open>JInt\<close> is an \<^verbatim>\<open>int\<close> (a JSON number written without fraction or exponent) and
  \<open>JNum\<close> a \<^verbatim>\<open>float\<close>; \<open>JObj\<close> holds the items of a dict (looked up with \<open>map_of\<close>).
\<close>

datatype json =
  JNull | JBool bool | JInt int | JNum real | JStr string | JArr "json list"
  | JObj "(string \<times> json) list"

text \<open>
  A dict key. Python hashes \<^verbatim>\<open>True\<close>, \<^verbatim>\<open>1\<close> and \<^verbatim>\<open>1.0\<close> to the same key, so booleans and
  numbers share \<open>KNum\<close>; lists and dicts are unhashable.
\<close>

datatype key = KNone | KNum real | KStr string

fun hashable :: "json \<Rightarrow> error + key" where
  "hashable JNull = Inr KNone"
| "hashable (JBool b) = Inr (KNum (if b then 1 else 0))"
| "hashable (JInt n) = Inr (KNum (real_of_int n))"
| "hashable (JNum x) = Inr (KNum x)"
| "hashable (JStr s) = Inr (KStr s)"
| "hashable (JArr xs) = Inl TypeError"
| "hashable (JObj kvs) = Inl TypeError"

definition then_do :: "error + 'a \<Rightarrow> ('a \<Rightarrow> error + 'b) \<Rightarrow> error + 'b" where
  "then_do m f = (case m of Inl e \<Rightarrow> Inl e | Inr x \<Rightarrow> f x)"

fun truthy :: "json \<Rightarrow> bool" where
  "truthy JNull = False"
| "truthy (JBool b) = b"
| "truthy (JInt n) = (n \<noteq> 0)"
| "truthy (JNum x) = (x \<noteq> 0)"
| "truthy (JStr s) = (s \<noteq> [])"
| "truthy (JArr xs) = (xs \<noteq> [])"
| "truthy (JObj kvs) = (kvs \<noteq> [])"

text \<open>The least magnitude of an \<^verbatim>\<open>int\<close> that \<^verbatim>\<open>float\<close> refuses with \<^verbatim>\<open>OverflowError\<close>: halfway
  between the largest double and \<open>2 ^ 1024\<close>.\<close>

definition float_limit :: int where
  "float_limit = 2 ^ 1024 - 2 ^ 970"

text \<open>\<^verbatim>\<open>float(x)\<close>; the conversion of a \<^verbatim>\<open>str\<close> is Python's own parser, taken as the
  parameter \<open>F\<close> (\<open>None\<close> where it raises \<^verbatim>\<open>ValueError\<close>).\<close>

fun py_float :: "(string \<Rightarrow> real option) \<Rightarrow> json \<Rightarrow> error + real" where
  "py_float F JNull = Inl TypeError"
| "py_float F (JBool b) = Inr (if b then 1 else 0)"
| "py_float F (JInt n) =
     (if float_limit \<le> \<bar>n\<bar> then Inl OverflowError else Inr (real_of_int n))"
| "py_float F (JNum x) = Inr x"
| "py_float F (JStr s) = (case F s of None \<Rightarrow> Inl ValueError | Some x \<Rightarrow> Inr x)"
| "py_float F (JArr xs) = Inl TypeError"
| "py_float F (JObj kvs) = Inl TypeError"

fun starts_with :: "string \<Rightarrow> string \<Rightarrow> bool" where
  "starts_with [] s = True"
| "starts_with (c # cs) [] = False"
| "starts_with (c # cs) (d # ds) = (c = d \<and> starts_with cs ds)"

fun substring :: "string \<Rightarrow> string \<Rightarrow> bool" where
  "substring k [] = (k = [])"
| "substring k (c # s) = (starts_with k (c # s) \<or> substring k s)"

text \<open>\<^verbatim>\<open>k in j\<close> for a \<^verbatim>\<open>str\<close> \<open>k\<close>.\<close>

fun py_in :: "string \<Rightarrow> json \<Rightarrow> error + bool" where
  "py_in k (JObj kvs) = Inr (map_of kvs k \<noteq> None)"
| "py_in k (JArr xs) = Inr (JStr k \<in> set xs)"
| "py_in k (JStr s) = Inr (substring k s)"
| "py_in k JNull = Inl TypeError"
| "py_in k (JBool b) = Inl TypeError"
| "py_in k (JInt n) = Inl TypeError"
| "py_in k (JNum x) = Inl TypeError"

text \<open>\<^verbatim>\<open>j[k]\<close> for a \<^verbatim>\<open>str\<close> \<open>k\<close>.\<close>

fun py_getitem :: "json \<Rightarrow> string \<Rightarrow> error + json" where
  "py_getitem (JObj kvs) k = (case map_of kvs k of None \<Rightarrow> Inl KeyError | Some v \<Rightarrow> Inr v)"
| "py_getitem (JArr xs) k = Inl TypeError"
| "py_getitem (JStr s) k = Inl TypeError"
| "py_getitem JNull k = Inl TypeError"
| "py_getitem (JBool b) k = Inl TypeError"
| "py_getitem (JInt n) k = Inl TypeError"
| "py_getitem (JNum x) k = Inl TypeError"

text \<open>\<^verbatim>\<open>j[i]\<close> for a non-negative \<^verbatim>\<open>int\<close> \<open>i\<close>; a dict decoded from JSON has only
  \<^verbatim>\<open>str\<close> keys.\<close>

fun py_index :: "json \<Rightarrow> nat \<Rightarrow> error + json" where
  "py_index (JArr xs) i = (if i < length xs then Inr (xs ! i) else Inl IndexError)"
| "py_index (JStr s) i = (if i < length s then Inr (JStr [s ! i]) else Inl IndexError)"
| "py_index (JObj kvs) i = Inl KeyError"
| "py_index JNull i = Inl TypeError"
| "py_index (JBool b) i = Inl TypeError"
| "py_index (JInt n) i = Inl TypeError"
| "py_index (JNum x) i = Inl TypeError"

text \<open>\<^verbatim>\<open>j.get(k, d)\<close>.\<close>

fun py_get :: "json \<Rightarrow> string \<Rightarrow> json \<Rightarrow> error + json" where
  "py_get (JObj kvs) k d = Inr (case map_of kvs k of None \<Rightarrow> d | Some v \<Rightarrow> v)"
| "py_get (JArr xs) k d = Inl AttributeError"
| "py_get (JStr s) k d = Inl AttributeError"
| "py_get JNull k d = Inl AttributeError"
| "py_get (JBool b) k d = Inl AttributeError"
| "py_get (JInt n) k d = Inl AttributeError"
| "py_get (JNum x) k d = Inl AttributeError"

text \<open>\<^verbatim>\<open>len(j)\<close>.\<close>

fun py_len :: "json \<Rightarrow> error + nat" where
  "py_len (JArr xs) = Inr (length xs)"
| "py_len (JStr s) = Inr (length s)"
| "py_len (JObj kvs) = Inr (length kvs)"
| "py_len JNull = Inl TypeError"
| "py_len (JBool b) = Inl TypeError"
| "py_len (JInt n) = Inl TypeError"
| "py_len (JNum x) = Inl TypeError"

section \<open>Configuration, state and the outside world\<close>

text \<open>One entry of \<^verbatim>\<open>carbon_providers\<close>; a provider missing from the configuration is
  the empty dict, \<open>no_provider\<close>. For WattTime \<open>api_key\<close> is \<^verbatim>\<open>token\<close> and \<open>endpoint\<close> is
  \<^verbatim>\<open>endpoint_index\<close>.\<close>

record provider =
  enabled :: bool
  api_key :: "string option"
  endpoint :: "string option"
  zone :: "key option"

definition no_provider :: provider where
  "no_provider = \<lparr>enabled = False, api_key = None, endpoint = None, zone = None\<rparr>"

record config =
  electricitymap :: provider
  watttime :: provider
  min_replicas :: int
  max_replicas :: int
  slo_p95_ms :: real
  w_slo :: real
  w_carbon :: real
  w_cost :: real
  cost_per_replica :: real
  cost_norm_max :: real
  default_carbon :: real
  cache_ttl :: real

text \<open>The values \<^verbatim>\<open>__init__\<close>, \<^verbatim>\<open>get_carbon\<close> and \<^verbatim>\<open>compute_scores\<close> take when the key is
  missing from the configuration file.\<close>

definition default_config :: config where
  "default_config =
    \<lparr>electricitymap = no_provider, watttime = no_provider,
     min_replicas = 1, max_replicas = 10, slo_p95_ms = 200,
     w_slo = 6 / 10, w_carbon = 3 / 10, w_cost = 1 / 10,
     cost_per_replica = 2 / 100, cost_norm_max = 1, default_carbon = 300,
     cache_ttl = 300\<rparr>"

text \<open>The mutable part of a \<^verbatim>\<open>CarbOnSeer\<close> object: the fallback table and the cache, whose
  entries are pairs (value, timestamp).\<close>

record state =
  carbon_map :: "key \<Rightarrow> real option"
  carbon_cache :: "key \<Rightarrow> (real \<times> real) option"

text \<open>
  What the process observes from outside during one call: the clock, the environment
  variables, the outcome of an HTTP GET (endpoint, query parameters, headers; \<open>Inl\<close> when
  \<^verbatim>\<open>requests.get\<close>, \<^verbatim>\<open>raise_for_status\<close> or \<^verbatim>\<open>r.json()\<close> raises), the outcome of the Prometheus
  query and of reading the deployment's replica count. For a request served by the update
  endpoint it also holds the outcome of the two \<^verbatim>\<open>print\<close> calls of \<^verbatim>\<open>do_POST\<close>, when they are
  reached (\<open>print_update\<close> for line 199, whose text contains the region; \<open>print_error\<close> for
  line 203; \<open>Some e\<close> when the call raises \<open>e\<close>), and \<open>broken_after\<close>, the number of writes to
  the client connection that succeed before it breaks (\<open>None\<close> when it does not break); once
  a write has failed, every later write of the request fails.
\<close>

record world =
  now :: real
  float_str :: "string \<Rightarrow> real option"
  getenv :: "string \<Rightarrow> string option"
  requests_get :: "string \<Rightarrow> (string \<times> key) list \<Rightarrow> (string \<times> string) list \<Rightarrow> error + json"
  custom_query :: "error + json"
  read_replicas :: "error + int"
  print_update :: "error option"
  print_error :: "error option"
  broken_after :: "nat option"

section \<open>Carbon providers\<close>

text \<open>\<^verbatim>\<open>a or b\<close> on optional strings: \<^verbatim>\<open>None\<close> and the empty string are falsy.\<close>

definition str_truthy :: "string option \<Rightarrow> bool" where
  "str_truthy a = (case a of None \<Rightarrow> False | Some s \<Rightarrow> s \<noteq> [])"

definition str_or :: "string option \<Rightarrow> string option \<Rightarrow> string option" where
  "str_or a b = (if str_truthy a then a else b)"

text \<open>The \<^verbatim>\<open>for k in (...)\<close> loop of \<^verbatim>\<open>fetch_electricitymap\<close>: the value under the first
  key present, \<^verbatim>\<open>None\<close> when there is none.\<close>

fun first_key :: "json \<Rightarrow> string list \<Rightarrow> error + json" where
  "first_key j [] = Inr JNull"
| "first_key j (k # ks) =
     (case py_in k j of
        Inl e \<Rightarrow> Inl e
      | Inr b \<Rightarrow> if b then py_getitem j k else first_key j ks)"

text \<open>The condition of the \<^verbatim>\<open>if\<close> at line 85, with Python's short-circuit evaluation.\<close>

definition has_data_intensity :: "json \<Rightarrow> error + bool" where
  "has_data_intensity j =
     then_do (py_in ''data'' j) (\<lambda>b.
       if \<not> b then Inr False
       else then_do (py_getitem j ''data'') (\<lambda>d.
         then_do (py_in ''carbonIntensity'' d) (\<lambda>c1.
           if c1 then Inr True
           else then_do (py_getitem j ''data'') (\<lambda>d'. py_in ''carbon_intensity'' d'))))"

text \<open>The body of the \<^verbatim>\<open>try\<close> block of \<^verbatim>\<open>fetch_electricitymap\<close>.\<close>

definition fetch_electricitymap_try :: "world \<Rightarrow> string \<Rightarrow> string \<Rightarrow> key \<Rightarrow> error + real option" where
  "fetch_electricitymap_try W akey ep zn =
     then_do (requests_get W ep [(''zone'', zn)] [(''auth-token'', akey)]) (\<lambda>j.
     then_do (has_data_intensity j) (\<lambda>c.
     then_do
       (if c then
          then_do (py_getitem j ''data'') (\<lambda>d.
          then_do (py_get d ''carbonIntensity'' JNull) (\<lambda>a.
            if truthy a then Inr a
            else then_do (py_getitem j ''data'') (\<lambda>d'. py_get d' ''carbon_intensity'' JNull)))
        else first_key j [''carbonIntensity'', ''carbon_intensity'', ''gCO2eq_per_kWh''])
       (\<lambda>val.
          if val \<noteq> JNull then then_do (py_float (float_str W) val) (\<lambda>x. Inr (Some x))
          else Inr None)))"

definition fetch_electricitymap :: "config \<Rightarrow> world \<Rightarrow> key \<Rightarrow> error + real option" where
  "fetch_electricitymap cfg W zn =
     (let prov = electricitymap cfg;
          k = str_or (api_key prov) (getenv W ''ELECTRICITYMAP_API_KEY'');
          ep = endpoint prov
      in if \<not> str_truthy k \<or> \<not> str_truthy ep then Inr None
         else (case fetch_electricitymap_try W (the k) (the ep) zn of
                 Inl e \<Rightarrow> Inr None
               | Inr r \<Rightarrow> Inr r))"

text \<open>The body of the \<^verbatim>\<open>try\<close> block of \<^verbatim>\<open>fetch_watttime_index\<close>, called with
  \<^verbatim>\<open>params=None\<close>.\<close>

definition fetch_watttime_index_try :: "world \<Rightarrow> string \<Rightarrow> string \<Rightarrow> error + real option" where
  "fetch_watttime_index_try W tok ep =
     then_do (requests_get W ep [] [(''Authorization'', ''Token '' @ tok)]) (\<lambda>j.
     then_do (py_in ''moer'' j) (\<lambda>b1.
       if b1 then
         then_do (py_getitem j ''moer'') (\<lambda>v. then_do (py_float (float_str W) v) (\<lambda>x. Inr (Some x)))
       else then_do (py_in ''index_value'' j) (\<lambda>b2.
         if b2 then
           then_do (py_getitem j ''index_value'') (\<lambda>v.
             then_do (py_float (float_str W) v) (\<lambda>x. Inr (Some x)))
         else then_do (py_in ''value'' j) (\<lambda>b3.
           if b3 then
             then_do (py_getitem j ''value'') (\<lambda>v.
               then_do (py_float (float_str W) v) (\<lambda>x. Inr (Some x)))
           else Inr None))))"

definition fetch_watttime_index :: "config \<Rightarrow> world \<Rightarrow> error + real option" where
  "fetch_watttime_index cfg W =
     (let prov = watttime cfg;
          tok = str_or (api_key prov) (getenv W ''WATTTIME_TOKEN'');
          ep = endpoint prov
      in if \<not> str_truthy tok \<or> \<not> str_truthy ep then Inr None
         else (case fetch_watttime_index_try W (the tok) (the ep) of
                 Inl e \<Rightarrow> Inr None
               | Inr r \<Rightarrow> Inr r))"

section \<open>The carbon intensity resolver\<close>

text \<open>Lines 129 to 142 of \<^verbatim>\<open>get_carbon\<close>: the providers in order, each call under its own
  \<^verbatim>\<open>try\<close>.\<close>

definition try_providers :: "config \<Rightarrow> world \<Rightarrow> key \<Rightarrow> real option" where
  "try_providers cfg W region =
     (let em = electricitymap cfg;
          val = (if enabled em then
                   (case fetch_electricitymap cfg W
                           (case zone em of None \<Rightarrow> region | Some z \<Rightarrow> z) of
                      Inl e \<Rightarrow> None
                    | Inr r \<Rightarrow> r)
                 else None)
      in if val = None then
           (let wt = watttime cfg
            in if enabled wt then
                 (case fetch_watttime_index cfg W of Inl e \<Rightarrow> None | Inr r \<Rightarrow> r)
               else None)
         else val)"

text \<open>Lines 129 to 148: the path taken when the cache entry is missing or stale.\<close>

definition refresh :: "config \<Rightarrow> world \<Rightarrow> key \<Rightarrow> state \<Rightarrow> real \<times> state" where
  "refresh cfg W region st =
     (let val = (case try_providers cfg W region of
                   Some v \<Rightarrow> v
                 | None \<Rightarrow>
                     (case carbon_map st region of
                        Some m \<Rightarrow> m
                      | None \<Rightarrow> default_carbon cfg))
      in (val, st\<lparr>carbon_cache := (carbon_cache st)(region \<mapsto> (val, now W))\<rparr>))"

definition get_carbon :: "config \<Rightarrow> world \<Rightarrow> key \<Rightarrow> state \<Rightarrow> error + (real \<times> state)" where
  "get_carbon cfg W region st =
     (case carbon_cache st region of
        Some (v, t) \<Rightarrow>
          if now W - t < cache_ttl cfg then Inr (v, st) else Inr (refresh cfg W region st)
      | None \<Rightarrow> Inr (refresh cfg W region st))"

section \<open>Scoring\<close>

text \<open>\<^verbatim>\<open>query_p95\<close>: the body of its \<^verbatim>\<open>try\<close> block, then the function.\<close>

definition query_p95_try :: "world \<Rightarrow> error + real option" where
  "query_p95_try W =
     then_do (custom_query W) (\<lambda>res.
       if \<not> truthy res then Inr None
       else then_do (py_len res) (\<lambda>n.
         if \<not> n > 0 then Inr None
         else then_do (py_index res 0) (\<lambda>r0.
           then_do (py_in ''value'' r0) (\<lambda>b.
             if \<not> b then Inr None
             else then_do (py_index res 0) (\<lambda>r1.
               then_do (py_getitem r1 ''value'') (\<lambda>v.
                 then_do (py_index v 1) (\<lambda>s.
                   then_do (py_float (float_str W) s) (\<lambda>val. Inr (Some (val * 1000))))))))))"

definition query_p95 :: "world \<Rightarrow> error + real option" where
  "query_p95 W = (case query_p95_try W of Inl e \<Rightarrow> Inr None | Inr r \<Rightarrow> Inr r)"

text \<open>Lines 155 to 158. Python raises \<^verbatim>\<open>ZeroDivisionError\<close> on a division by zero.\<close>

definition slo_score :: "config \<Rightarrow> real option \<Rightarrow> error + real" where
  "slo_score cfg p95_ms =
     (case p95_ms of
        None \<Rightarrow> Inr (5 / 10)
      | Some p \<Rightarrow>
          if p \<le> slo_p95_ms cfg then Inr 1
          else if slo_p95_ms cfg * 5 = 0 then Inl ZeroDivisionError
          else Inr (max 0 (1 - (p - slo_p95_ms cfg) / (slo_p95_ms cfg * 5))))"

definition carbon_score :: "real \<Rightarrow> real" where
  "carbon_score carbon_val = max 0 (1 - carbon_val / 1000)"

definition cost_score :: "config \<Rightarrow> real" where
  "cost_score cfg =
     1 - min 1 (cost_per_replica cfg / max (1 / 1000000) (cost_norm_max cfg))"

record scores =
  slo :: real
  carbon :: real
  cost :: real
  combined :: real
  carbon_g :: real

definition compute_scores ::
  "config \<Rightarrow> world \<Rightarrow> real option \<Rightarrow> key \<Rightarrow> state \<Rightarrow> error + (scores \<times> state)" where
  "compute_scores cfg W p95_ms region st =
     then_do (slo_score cfg p95_ms) (\<lambda>s.
     then_do (get_carbon cfg W region st) (\<lambda>(carbon_val, st').
       Inr (\<lparr>slo = s, carbon = carbon_score carbon_val, cost = cost_score cfg,
             combined = w_slo cfg * s + w_carbon cfg * carbon_score carbon_val
                        + w_cost cfg * cost_score cfg,
             carbon_g = carbon_val\<rparr>, st')))"

section \<open>The update endpoint\<close>

text \<open>
  A request as \<^verbatim>\<open>do_POST\<close> sees it: the path, the \<^verbatim>\<open>Content-Length\<close> header (absent, an
  integer, or text that \<^verbatim>\<open>int()\<close> rejects) and the body, which is what
  \<^verbatim>\<open>self.rfile.read(length)\<close> and then \<^verbatim>\<open>json.loads\<close> make of the bytes the client sends:
  \<open>Unread e\<close> when the read raises \<open>e\<close>, \<open>Stalled\<close> when the read never returns (the client
  sent fewer bytes than announced and keeps the connection open), \<open>Undecodable\<close> when
  \<^verbatim>\<open>json.loads\<close> raises, \<open>Decoded j\<close> otherwise.
\<close>

datatype header = Absent | Numeric int | Garbled

datatype payload = Unread error | Stalled | Undecodable | Decoded json

record request =
  path :: string
  content_length :: header
  body :: payload

text \<open>How a call of the handler ends: it returns, an exception leaves it, or it never
  returns.\<close>

datatype ending = Returned | Raised error | Blocked

text \<open>
  What the handler writes to the connection, in order: \<open>Head c\<close> is the status line and
  headers that \<^verbatim>\<open>send_response(c); end_headers()\<close> flush, \<open>Payload b\<close> the bytes of
  \<^verbatim>\<open>wfile.write(b)\<close>. The outcome of \<^verbatim>\<open>do_POST\<close> is the list of writes that succeeded and the
  way the call ended; the client reads the answer 200 "ok" when the outcome is
  \<open>([Head 200, Payload ''ok''], Returned)\<close>.
\<close>

datatype wire = Head nat | Payload string

definition wfile_write :: "world \<Rightarrow> wire list \<Rightarrow> wire \<Rightarrow> error + wire list" where
  "wfile_write W sent x =
     (case broken_after W of
        None \<Rightarrow> Inr (sent @ [x])
      | Some n \<Rightarrow> if length sent < n then Inr (sent @ [x]) else Inl BrokenPipeError)"

text \<open>Lines 193 to 198, the \<^verbatim>\<open>try\<close> block up to the two assignments. \<open>raw\<close> is what
  \<^verbatim>\<open>json.loads(raw)\<close> gives.\<close>

definition update_carbon :: "world \<Rightarrow> json option \<Rightarrow> state \<Rightarrow> error + state" where
  "update_carbon W raw st =
     then_do (case raw of None \<Rightarrow> Inl ValueError | Some j \<Rightarrow> Inr j) (\<lambda>j.
     then_do (py_get j ''region'' (JStr ''local'')) (\<lambda>region.
     then_do (py_get j ''carbon'' JNull) (\<lambda>c.
     then_do (py_float (float_str W) c) (\<lambda>carbon.
     then_do (hashable region) (\<lambda>k.
       Inr \<lparr>carbon_map = (carbon_map st)(k \<mapsto> carbon),
            carbon_cache = (carbon_cache st)(k \<mapsto> (carbon, now W))\<rparr>)))))"

text \<open>\<^verbatim>\<open>int(self.headers.get("content-length", 0))\<close>, line 190, outside the \<^verbatim>\<open>try\<close>.\<close>

fun header_int :: "header \<Rightarrow> error + int" where
  "header_int Absent = Inr 0"
| "header_int (Numeric n) = Inr n"
| "header_int Garbled = Inl ValueError"

text \<open>Lines 203 and 204, the \<^verbatim>\<open>except\<close> clause; \<open>sent\<close> is what the connection has
  received so far.\<close>

definition reject :: "world \<Rightarrow> wire list \<Rightarrow> wire list \<times> ending" where
  "reject W sent =
     (case print_error W of
        Some e \<Rightarrow> (sent, Raised e)
      | None \<Rightarrow>
          (case wfile_write W sent (Head 400) of
             Inl e \<Rightarrow> (sent, Raised e)
           | Inr sent' \<Rightarrow> (sent', Returned)))"

text \<open>
  Lines 192 to 204, the \<^verbatim>\<open>try\<close> statement, for the result \<open>raw\<close> of \<^verbatim>\<open>json.loads\<close>. Lines 199
  to 201 run inside the \<^verbatim>\<open>try\<close> after the two assignments: when the \<^verbatim>\<open>print\<close> or a write to
  the connection raises, the \<^verbatim>\<open>except\<close> clause runs with the state already updated.
\<close>

definition try_update :: "world \<Rightarrow> json option \<Rightarrow> state \<Rightarrow> (wire list \<times> ending) \<times> state" where
  "try_update W raw st =
     (case update_carbon W raw st of
        Inl e \<Rightarrow> (reject W [], st)
      | Inr st' \<Rightarrow>
          (case print_update W of
             Some e \<Rightarrow> (reject W [], st')
           | None \<Rightarrow>
               (case wfile_write W [] (Head 200) of
                  Inl e \<Rightarrow> (reject W [], st')
                | Inr sent \<Rightarrow>
                    (case wfile_write W sent (Payload ''ok'') of
                       Inl e \<Rightarrow> (reject W sent, st')
                     | Inr sent' \<Rightarrow> ((sent', Returned), st')))))"

text \<open>\<^verbatim>\<open>do_POST\<close>: the path (lines 188 and 189), the length (line 190), the read (line 191,
  which like line 190 is outside the \<^verbatim>\<open>try\<close>), then the \<^verbatim>\<open>try\<close> statement. Without a positive
  length nothing is read and the document is \<^verbatim>\<open>{}\<close>.\<close>

definition do_POST :: "world \<Rightarrow> request \<Rightarrow> state \<Rightarrow> (wire list \<times> ending) \<times> state" where
  "do_POST W rq st =
     (if path rq \<noteq> ''/update_carbon'' then
        (case wfile_write W [] (Head 404) of
           Inl e \<Rightarrow> (([], Raised e), st)
         | Inr sent \<Rightarrow> ((sent, Returned), st))
      else
        (case header_int (content_length rq) of
           Inl e \<Rightarrow> (([], Raised e), st)
         | Inr len \<Rightarrow>
             if len > 0 then
               (case body rq of
                  Unread e \<Rightarrow> (([], Raised e), st)
                | Stalled \<Rightarrow> (([], Blocked), st)
                | Undecodable \<Rightarrow> try_update W None st
                | Decoded j \<Rightarrow> try_update W (Some j) st)
             else try_update W (Some (JObj [])) st))"

section \<open>The controller loop\<close>

text \<open>Lines 233 to 239: the decision for the current replica count \<open>cur\<close>.\<close>

definition decide :: "config \<Rightarrow> real option \<Rightarrow> int \<Rightarrow> int" where
  "decide cfg p95 cur =
     (case p95 of
        None \<Rightarrow> cur
      | Some p \<Rightarrow>
          if p > slo_p95_ms cfg \<and> cur < max_replicas cfg then min (max_replicas cfg) (cur + 1)
          else if p < slo_p95_ms cfg * (6 / 10) \<and> cur > min_replicas cfg
               then max (min_replicas cfg) (cur - 1)
          else cur)"

text \<open>
  One iteration of the loop of \<^verbatim>\<open>run_loop\<close>. The result is the replica count passed to
  \<^verbatim>\<open>patch_replicas\<close> (\<open>None\<close> when no patch is attempted), the scores published as gauges and
  the new state; \<open>Inl\<close> is an exception that leaves the loop. The scores are computed for the
  default region \<^verbatim>\<open>'local'\<close>.
\<close>

definition cycle :: "config \<Rightarrow> world \<Rightarrow> state \<Rightarrow> error + (int option \<times> scores \<times> state)" where
  "cycle cfg W st =
     then_do (query_p95 W) (\<lambda>p95.
     then_do (compute_scores cfg W p95 (KStr ''local'') st) (\<lambda>(sc, st').
       (case read_replicas W of
          Inl e \<Rightarrow> Inr (None, sc, st')
        | Inr cur \<Rightarrow>
            (let newr = decide cfg p95 cur
             in Inr (if newr \<noteq> cur then Some newr else None, sc, st')))))"

text \<open>
  The process over a finite sequence of events: an iteration of the loop, or a request
  served between two iterations by the handler thread that \<^verbatim>\<open>run_loop\<close> starts when the HTTP
  API is enabled (each request is taken as one atomic step). The result is the list of
  replica counts passed to \<^verbatim>\<open>patch_replicas\<close>, the final state, and the exception that ended
  the loop, if any.
\<close>

datatype event = Iteration world | Post world request

fun run_loop :: "config \<Rightarrow> event list \<Rightarrow> state \<Rightarrow> int list \<times> state \<times> error option" where
  "run_loop cfg [] st = ([], st, None)"
| "run_loop cfg (Iteration W # es) st =
     (case cycle cfg W st of
        Inl e \<Rightarrow> ([], st, Some e)
      | Inr (p, sc, st') \<Rightarrow>
          (case run_loop cfg es st' of
             (ps, st'', r) \<Rightarrow> ((case p of None \<Rightarrow> ps | Some n \<Rightarrow> n # ps), st'', r)))"
| "run_loop cfg (Post W rq # es) st = run_loop cfg es (snd (do_POST W rq st))"

section \<open>Example inputs\<close>

text \<open>The state of a fresh process whose configuration has no \<^verbatim>\<open>carbon_map\<close>.\<close>

definition init_state :: state where
  "init_state = \<lparr>carbon_map = Map.empty, carbon_cache = Map.empty\<rparr>"

text \<open>The answer of Prometheus to an instant query: one sample whose value is the text
  \<open>s\<close>.\<close>

definition prom_sample :: "string \<Rightarrow> error + json" where
  "prom_sample s = Inr (JArr [JObj [(''metric'', JObj []), (''value'', JArr [JInt 1700000000, JStr s])]])"

text \<open>The conversion \<^verbatim>\<open>float\<close> on the three texts the examples use.\<close>

definition float_examples :: "string \<Rightarrow> real option" where
  "float_examples s =
     (if s = ''0.25'' then Some (25 / 100)
      else if s = ''0.1'' then Some (1 / 10)
      else if s = ''0.15'' then Some (15 / 100)
      else None)"

text \<open>A world at time \<open>t\<close> where every HTTP GET fails, Prometheus answers \<open>q\<close> and the
  deployment has \<open>r\<close> replicas; the log and the client connection work.\<close>

definition offline :: "real \<Rightarrow> error + json \<Rightarrow> error + int \<Rightarrow> world" where
  "offline t q r =
     \<lparr>now = t, float_str = float_examples, getenv = (\<lambda>v. None),
      requests_get = (\<lambda>ep ps hs. Inl RequestException),
      custom_query = q, read_replicas = r,
      print_update = None, print_error = None, broken_after = None\<rparr>"

definition update_request :: "json \<Rightarrow> request" where
  "update_request j = \<lparr>path = ''/update_carbon'', content_length = Numeric 40, body = Decoded j\<rparr>"

text \<open>A world at time \<open>t\<close> where every HTTP GET returns the document \<open>j\<close>; Prometheus and
  the orchestration API are unreachable.\<close>

definition answering :: "real \<Rightarrow> json \<Rightarrow> world" where
  "answering t j =
     \<lparr>now = t, float_str = float_examples, getenv = (\<lambda>v. None),
      requests_get = (\<lambda>ep ps hs. Inr j),
      custom_query = Inl RequestException, read_replicas = Inl RequestException,
      print_update = None, print_error = None, broken_after = None\<rparr>"

text \<open>An enabled provider with credentials and an endpoint.\<close>

definition live_provider :: provider where
  "live_provider =
     \<lparr>enabled = True, api_key = Some ''secret'',
      endpoint = Some ''https://provider.example/latest'', zone = None\<rparr>"

text \<open>The update \<^verbatim>\<open>{"region": "eu", "carbon": 50}\<close>, and a state that already holds other
  values for that region in the fallback table and in the cache.\<close>

definition eu_update :: request where
  "eu_update = update_request (JObj [(''region'', JStr ''eu''), (''carbon'', JInt 50)])"

definition prior_state :: state where
  "prior_state =
     \<lparr>carbon_map = [KStr ''eu'' \<mapsto> 400], carbon_cache = [KStr ''eu'' \<mapsto> (410, 0)]\<rparr>"

text \<open>The lone surrogate U+D800, which JSON can escape: a string that \<^verbatim>\<open>json.loads\<close>
  accepts and that a UTF-8 standard output cannot encode (here in its three-byte form).\<close>

definition lone_surrogate :: string where
  "lone_surrogate = [CHR 0xED, CHR 0xA0, CHR 0x80]"

section \<open>Predicates used in the statements\<close>

text \<open>
  The documents the \<^verbatim>\<open>try\<close> block of \<^verbatim>\<open>do_POST\<close> accepts: a JSON object whose \<^verbatim>\<open>carbon\<close>
  member is present and converts with \<^verbatim>\<open>float\<close>, and whose \<^verbatim>\<open>region\<close> member, if present,
  is hashable (null, a boolean, a number or a string).
\<close>

definition body_ok :: "world \<Rightarrow> json option \<Rightarrow> bool" where
  "body_ok W raw =
     (case raw of
        Some (JObj kvs) \<Rightarrow>
          (case map_of kvs ''carbon'' of
             None \<Rightarrow> False
           | Some c \<Rightarrow> (case py_float (float_str W) c of Inl e \<Rightarrow> False | Inr x \<Rightarrow> True))
          \<and> (case map_of kvs ''region'' of
                None \<Rightarrow> True
              | Some r \<Rightarrow> (case hashable r of Inl e \<Rightarrow> False | Inr k \<Rightarrow> True))
      | _ \<Rightarrow> False)"

text \<open>The document the \<^verbatim>\<open>try\<close> statement works on, when \<^verbatim>\<open>do_POST\<close> gets that far: what
  \<^verbatim>\<open>json.loads\<close> makes of the body when \<^verbatim>\<open>Content-Length\<close> is a positive integer, the empty
  object otherwise.\<close>

definition decoded :: "request \<Rightarrow> json option" where
  "decoded rq =
     (if (case content_length rq of Numeric n \<Rightarrow> 0 < n | _ \<Rightarrow> False)
      then (case body rq of Decoded j \<Rightarrow> Some j | _ \<Rightarrow> None)
      else Some (JObj []))"

text \<open>The requests whose length and body the handler can read: \<^verbatim>\<open>Content-Length\<close> is absent
  or an integer, and the read of a body of positive length returns.\<close>

definition readable :: "request \<Rightarrow> bool" where
  "readable rq =
     (case content_length rq of
        Garbled \<Rightarrow> False
      | Absent \<Rightarrow> True
      | Numeric n \<Rightarrow>
          (if 0 < n then (case body rq of Unread e \<Rightarrow> False | Stalled \<Rightarrow> False | _ \<Rightarrow> True)
           else True))"

text \<open>The requests the endpoint accepts.\<close>

definition accepted :: "world \<Rightarrow> request \<Rightarrow> bool" where
  "accepted W rq = (readable rq \<and> body_ok W (decoded rq))"

definition in_range :: "config \<Rightarrow> int \<Rightarrow> bool" where
  "in_range cfg n = (min_replicas cfg \<le> n \<and> n \<le> max_replicas cfg)"

text \<open>The replica count an iteration reads, when it reads one, is in range.\<close>

fun reads_in_range :: "config \<Rightarrow> event \<Rightarrow> bool" where
  "reads_in_range cfg (Iteration W) =
     (case read_replicas W of Inl e \<Rightarrow> True | Inr cur \<Rightarrow> in_range cfg cur)"
| "reads_in_range cfg (Post W rq) = True"

section \<open>Basic facts\<close>

lemmas python_defs = then_do_def str_truthy_def str_or_def float_limit_def

lemmas handler_defs = do_POST_def try_update_def update_carbon_def reject_def wfile_write_def

lemmas example_defs =
  default_config_def no_provider_def init_state_def prom_sample_def float_examples_def
  offline_def update_request_def answering_def live_provider_def eu_update_def
  prior_state_def lone_surrogate_def

lemmas loop_defs =
  cycle_def decide_def compute_scores_def slo_score_def carbon_score_def cost_score_def
  get_carbon_def refresh_def try_providers_def query_p95_def query_p95_try_def

lemma fetch_electricitymap_total: "\<exists>r. fetch_electricitymap cfg W zn = Inr r"
  by (auto simp: fetch_electricitymap_def Let_def split: sum.splits)

lemma fetch_watttime_index_total: "\<exists>r. fetch_watttime_index cfg W = Inr r"
  by (auto simp: fetch_watttime_index_def Let_def split: sum.splits)

lemma query_p95_total: "\<exists>r. query_p95 W = Inr r"
  by (auto simp: query_p95_def split: sum.splits)

lemma decide_in_range:
  "min_replicas cfg \<le> cur \<Longrightarrow> cur \<le> max_replicas cfg \<Longrightarrow>
   min_replicas cfg \<le> decide cfg p cur \<and> decide cfg p cur \<le> max_replicas cfg"
  by (auto simp: decide_def split: option.splits)

lemma cycle_patch:
  assumes "cycle cfg W st = Inr (Some n, sc, st')"
  shows "\<exists>cur p95. read_replicas W = Inr cur \<and> query_p95 W = Inr p95 \<and>
           n = decide cfg p95 cur \<and> n \<noteq> cur"
  using assms
  by (auto simp: cycle_def then_do_def Let_def split: sum.splits prod.splits if_splits)

section \<open>The replica count stays in range\<close>

text \<open>
  Claim C1, as stated, fails: the controller steps by one from whatever count the
  orchestration API reports and clamps only the side it steps towards. With the default
  bounds 1 and 10 and the target 200 ms, a deployment that an external actor scaled to 15
  replicas and a latency of 100 ms give a patch to 14 replicas, above \<open>max_replicas\<close>.
\<close>

theorem patch_out_of_range_counterexample:
  "fst (run_loop default_config [Iteration (offline 0 (prom_sample ''0.1'') (Inr 15))] init_state)
     = [14]
   \<and> \<not> in_range default_config 14"
  by (simp add: python_defs example_defs loop_defs in_range_def)

text \<open>
  Claim C1, amended: over any sequence of loop iterations and update requests, every replica
  count the controller patches lies within \<open>[min_replicas, max_replicas]\<close>, provided the
  count read from the orchestration API in each iteration lies within that interval; the
  latency readings, the carbon values and the state are arbitrary.
\<close>

theorem patched_replicas_in_range:
  "list_all (reads_in_range cfg) es \<Longrightarrow> list_all (in_range cfg) (fst (run_loop cfg es st))"
proof (induction cfg es st rule: run_loop.induct)
  case (1 cfg st)
  then show ?case by simp
next
  case (2 cfg W es st)
  show ?case
  proof (cases "cycle cfg W st")
    case (Inl e)
    then show ?thesis by simp
  next
    case (Inr r)
    obtain p sc st' where r: "r = (p, sc, st')" by (cases r) auto
    from 2 have rest: "list_all (in_range cfg) (fst (run_loop cfg es st'))"
      using Inr r by simp
    show ?thesis
    proof (cases p)
      case None
      then show ?thesis using Inr r rest by (auto split: prod.splits)
    next
      case (Some n)
      with Inr r have "cycle cfg W st = Inr (Some n, sc, st')" by simp
      from cycle_patch[OF this] obtain cur p95 where
        c: "read_replicas W = Inr cur" "n = decide cfg p95 cur" by blast
      from 2(2) c have "in_range cfg cur" by simp
      then have "in_range cfg n"
        using c decide_in_range[of cfg cur p95] by (simp add: in_range_def)
      then show ?thesis using Inr r rest Some by (auto split: prod.splits)
    qed
  qed
next
  case (3 cfg W rq es st)
  then show ?case by simp
qed

theorem patched_replicas_in_range_witness:
  "list_all (reads_in_range default_config)
     [Iteration (offline 0 (prom_sample ''0.25'') (Inr 9)),
      Iteration (offline 15 (prom_sample ''0.25'') (Inr 10)),
      Iteration (offline 30 (prom_sample ''0.1'') (Inr 2)),
      Iteration (offline 45 (prom_sample ''0.1'') (Inr 1))]
   \<and> fst (run_loop default_config
       [Iteration (offline 0 (prom_sample ''0.25'') (Inr 9)),
        Iteration (offline 15 (prom_sample ''0.25'') (Inr 10)),
        Iteration (offline 30 (prom_sample ''0.1'') (Inr 2)),
        Iteration (offline 45 (prom_sample ''0.1'') (Inr 1))] init_state) = [10, 1]
   \<and> list_all (in_range default_config)
       (fst (run_loop default_config
         [Iteration (offline 0 (prom_sample ''0.25'') (Inr 9)),
          Iteration (offline 15 (prom_sample ''0.25'') (Inr 10)),
          Iteration (offline 30 (prom_sample ''0.1'') (Inr 2)),
          Iteration (offline 45 (prom_sample ''0.1'') (Inr 1))] init_state))"
proof -
  have reads: "list_all (reads_in_range default_config)
     [Iteration (offline 0 (prom_sample ''0.25'') (Inr 9)),
      Iteration (offline 15 (prom_sample ''0.25'') (Inr 10)),
      Iteration (offline 30 (prom_sample ''0.1'') (Inr 2)),
      Iteration (offline 45 (prom_sample ''0.1'') (Inr 1))]"
    by (simp add: example_defs in_range_def)
  have trace: "fst (run_loop default_config
       [Iteration (offline 0 (prom_sample ''0.25'') (Inr 9)),
        Iteration (offline 15 (prom_sample ''0.25'') (Inr 10)),
        Iteration (offline 30 (prom_sample ''0.1'') (Inr 2)),
        Iteration (offline 45 (prom_sample ''0.1'') (Inr 1))] init_state) = [10, 1]"
    by (simp add: python_defs example_defs loop_defs)
  show ?thesis
    using reads trace patched_replicas_in_range [OF reads, of init_state] by simp
qed

section \<open>The scores\<close>

lemma slo_score_bounds:
  assumes "0 < slo_p95_ms cfg"
  shows "\<exists>s. slo_score cfg p = Inr s \<and> 0 \<le> s \<and> s \<le> 1"
proof (cases p)
  case None
  then have "slo_score cfg p = Inr (1 / 2)" by (simp add: slo_score_def)
  moreover have "(0::real) \<le> 1 / 2 \<and> (1::real) / 2 \<le> 1" by simp
  ultimately show ?thesis by blast
next
  case (Some L)
  show ?thesis
  proof (cases "L \<le> slo_p95_ms cfg")
    case True
    with Some show ?thesis by (simp add: slo_score_def)
  next
    case False
    then have "0 \<le> (L - slo_p95_ms cfg) / (slo_p95_ms cfg * 5)"
      using assms by simp
    with Some False assms show ?thesis by (simp add: slo_score_def)
  qed
qed

lemma carbon_score_bounds: "0 \<le> carbon_score v" "0 \<le> v \<Longrightarrow> carbon_score v \<le> 1"
  by (simp_all add: carbon_score_def)

lemma cost_score_bounds: "0 \<le> cost_score cfg" "0 \<le> cost_per_replica cfg \<Longrightarrow> cost_score cfg \<le> 1"
proof -
  have pos: "0 < max (1 / 1000000) (cost_norm_max cfg)" by simp
  show "0 \<le> cost_score cfg" by (simp add: cost_score_def)
  assume "0 \<le> cost_per_replica cfg"
  then have "0 \<le> cost_per_replica cfg / max (1 / 1000000) (cost_norm_max cfg)"
    using pos by (meson divide_nonneg_pos)
  then show "cost_score cfg \<le> 1" by (simp add: cost_score_def)
qed

lemma weighted_sum_bounds:
  fixes a b c s x k :: real
  assumes "0 \<le> a" "0 \<le> b" "0 \<le> c" "a + b + c \<le> 1"
    and "0 \<le> s" "s \<le> 1" "0 \<le> x" "x \<le> 1" "0 \<le> k" "k \<le> 1"
  shows "0 \<le> a * s + b * x + c * k" "a * s + b * x + c * k \<le> 1"
proof -
  show "0 \<le> a * s + b * x + c * k" using assms by simp
  have "a * s \<le> a" "b * x \<le> b" "c * k \<le> c"
    using assms by (simp_all add: mult_left_le)
  then show "a * s + b * x + c * k \<le> 1" using assms(4) by linarith
qed

text \<open>
  Claim C2, as stated, fails: the carbon score is clamped at 0 only. A carbon intensity below
  zero, which the update endpoint accepts and the resolver returns, gives a carbon score above
  1, and with the default weights a combined score above 1. Here \<^verbatim>\<open>{"carbon": -500}\<close> is
  posted and the next scoring, at a latency of 100 ms, has carbon score 3/2 and combined
  score 287/250.
\<close>

theorem scores_above_one_counterexample:
  "(case compute_scores default_config (offline 1 (prom_sample ''0.1'') (Inr 3)) (Some 100)
           (KStr ''local'')
           (snd (do_POST (offline 0 (prom_sample ''0.1'') (Inr 3))
                   (update_request (JObj [(''carbon'', JInt (- 500))])) init_state)) of
      Inl e \<Rightarrow> False
    | Inr (sc, st') \<Rightarrow>
        carbon_g sc = - 500 \<and> carbon sc = 3 / 2 \<and> combined sc = 287 / 250
        \<and> \<not> carbon sc \<le> 1 \<and> \<not> combined sc \<le> 1)"
  by (simp add: python_defs example_defs loop_defs handler_defs)

text \<open>
  Claim C2, amended: for every latency input (present or absent) and every carbon intensity
  value \<open>v \<ge> 0\<close> the resolver returns, under a configuration with a positive latency target,
  a non-negative cost per replica and non-negative weights whose sum is at most 1 (the
  defaults are such), \<^verbatim>\<open>compute_scores\<close> returns and all four fields \<open>slo\<close>, \<open>carbon\<close>, \<open>cost\<close>
  and \<open>combined\<close> of its result lie in \<open>[0,1]\<close>.
\<close>

theorem scores_in_unit_interval:
  assumes "0 < slo_p95_ms cfg" and "0 \<le> cost_per_replica cfg"
    and "0 \<le> w_slo cfg" and "0 \<le> w_carbon cfg" and "0 \<le> w_cost cfg"
    and "w_slo cfg + w_carbon cfg + w_cost cfg \<le> 1"
    and "get_carbon cfg W region st = Inr (v, st')" and "0 \<le> v"
  shows "\<exists>sc. compute_scores cfg W p95 region st = Inr (sc, st') \<and> carbon_g sc = v
           \<and> 0 \<le> slo sc \<and> slo sc \<le> 1 \<and> 0 \<le> carbon sc \<and> carbon sc \<le> 1
           \<and> 0 \<le> cost sc \<and> cost sc \<le> 1 \<and> 0 \<le> combined sc \<and> combined sc \<le> 1"
proof -
  from slo_score_bounds[OF assms(1)] obtain s where
    s: "slo_score cfg p95 = Inr s" "0 \<le> s" "s \<le> 1" by blast
  have c: "0 \<le> carbon_score v" "carbon_score v \<le> 1"
    using carbon_score_bounds assms(8) by simp_all
  have k: "0 \<le> cost_score cfg" "cost_score cfg \<le> 1"
    using cost_score_bounds assms(2) by simp_all
  have w: "0 \<le> w_slo cfg * s + w_carbon cfg * carbon_score v + w_cost cfg * cost_score cfg"
          "w_slo cfg * s + w_carbon cfg * carbon_score v + w_cost cfg * cost_score cfg \<le> 1"
    using weighted_sum_bounds[OF assms(3-6) s(2,3) c k] by simp_all
  show ?thesis
    using s c k w assms(7) by (simp add: compute_scores_def then_do_def)
qed

theorem scores_in_unit_interval_witness:
  "0 < slo_p95_ms default_config \<and> 0 \<le> cost_per_replica default_config
   \<and> 0 \<le> w_slo default_config \<and> 0 \<le> w_carbon default_config \<and> 0 \<le> w_cost default_config
   \<and> w_slo default_config + w_carbon default_config + w_cost default_config \<le> 1
   \<and> get_carbon default_config (offline 0 (prom_sample ''0.25'') (Inr 3)) (KStr ''local'') init_state
       = Inr (300, init_state\<lparr>carbon_cache := (carbon_cache init_state)(KStr ''local'' \<mapsto> (300, 0))\<rparr>)
   \<and> (\<exists>sc. compute_scores default_config (offline 0 (prom_sample ''0.25'') (Inr 3)) (Some 250)
              (KStr ''local'') init_state
            = Inr (sc, init_state\<lparr>carbon_cache := (carbon_cache init_state)(KStr ''local'' \<mapsto> (300, 0))\<rparr>)
          \<and> carbon_g sc = 300
          \<and> 0 \<le> slo sc \<and> slo sc \<le> 1 \<and> 0 \<le> carbon sc \<and> carbon sc \<le> 1
          \<and> 0 \<le> cost sc \<and> cost sc \<le> 1 \<and> 0 \<le> combined sc \<and> combined sc \<le> 1)"
proof -
  have h1: "0 < slo_p95_ms default_config" by (simp add: default_config_def)
  have h2: "0 \<le> cost_per_replica default_config" by (simp add: default_config_def)
  have h3: "0 \<le> w_slo default_config" by (simp add: default_config_def)
  have h4: "0 \<le> w_carbon default_config" by (simp add: default_config_def)
  have h5: "0 \<le> w_cost default_config" by (simp add: default_config_def)
  have h6: "w_slo default_config + w_carbon default_config + w_cost default_config \<le> 1"
    by (simp add: default_config_def)
  have h7: "get_carbon default_config (offline 0 (prom_sample ''0.25'') (Inr 3)) (KStr ''local'') init_state
       = Inr (300, init_state\<lparr>carbon_cache := (carbon_cache init_state)(KStr ''local'' \<mapsto> (300, 0))\<rparr>)"
    by (simp add: python_defs example_defs loop_defs)
  have h8: "(0::real) \<le> 300" by simp
  from scores_in_unit_interval [OF h1 h2 h3 h4 h5 h6 h7 h8, of "Some 250"] h1 h2 h3 h4 h5 h6 h7
  show ?thesis by blast
qed

section \<open>The SLO score\<close>

text \<open>
  Claim C3: the SLO score is 0.5 when the latency is absent; when a latency \<open>L\<close> is present it
  is 1 for \<open>L\<close> at most the target, \<open>max(0, 1 - (L - target) / (target * 5))\<close> above the
  target, hence 0 from \<open>target * 6\<close> on, and it is monotonically non-increasing in \<open>L\<close>. The
  target is positive, as the configuration's data model requires; the formula above the
  target needs only a target different from zero.
\<close>

theorem slo_score_spec:
  "slo_score cfg None = Inr (1 / 2)
   \<and> (L \<le> slo_p95_ms cfg \<longrightarrow> slo_score cfg (Some L) = Inr 1)
   \<and> (slo_p95_ms cfg \<noteq> 0 \<longrightarrow> slo_p95_ms cfg < L \<longrightarrow>
        slo_score cfg (Some L)
          = Inr (max 0 (1 - (L - slo_p95_ms cfg) / (slo_p95_ms cfg * 5))))
   \<and> (0 < slo_p95_ms cfg \<longrightarrow> slo_p95_ms cfg * 6 \<le> L \<longrightarrow> slo_score cfg (Some L) = Inr 0)
   \<and> (0 < slo_p95_ms cfg \<longrightarrow> L1 \<le> L2 \<longrightarrow>
        (\<exists>s1 s2. slo_score cfg (Some L1) = Inr s1 \<and> slo_score cfg (Some L2) = Inr s2
                  \<and> s2 \<le> s1))"
proof -
  let ?T = "slo_p95_ms cfg"
  have a: "slo_score cfg None = Inr (1 / 2)" by (simp add: slo_score_def)
  have b: "L \<le> ?T \<longrightarrow> slo_score cfg (Some L) = Inr 1" by (simp add: slo_score_def)
  have c: "?T \<noteq> 0 \<longrightarrow> ?T < L \<longrightarrow>
        slo_score cfg (Some L) = Inr (max 0 (1 - (L - ?T) / (?T * 5)))"
    by (simp add: slo_score_def)
  have d: "0 < ?T \<longrightarrow> ?T * 6 \<le> L \<longrightarrow> slo_score cfg (Some L) = Inr 0"
  proof (intro impI)
    assume T: "0 < ?T" and L: "?T * 6 \<le> L"
    then have "1 \<le> (L - ?T) / (?T * 5)" by (simp add: field_simps)
    with T L show "slo_score cfg (Some L) = Inr 0" by (simp add: slo_score_def)
  qed
  have e: "0 < ?T \<longrightarrow> L1 \<le> L2 \<longrightarrow>
        (\<exists>s1 s2. slo_score cfg (Some L1) = Inr s1 \<and> slo_score cfg (Some L2) = Inr s2 \<and> s2 \<le> s1)"
  proof (intro impI)
    assume T: "0 < ?T" and L: "L1 \<le> L2"
    from slo_score_bounds[OF T] obtain s1 where s1: "slo_score cfg (Some L1) = Inr s1" "s1 \<le> 1" by blast
    from slo_score_bounds[OF T] obtain s2 where s2: "slo_score cfg (Some L2) = Inr s2" "s2 \<le> 1" by blast
    have "s2 \<le> s1"
    proof (cases "L1 \<le> ?T")
      case True
      with s1 have "s1 = 1" by (simp add: slo_score_def)
      with s2 show ?thesis by simp
    next
      case False
      with L have F2: "\<not> L2 \<le> ?T" by simp
      have le: "(L1 - ?T) / (?T * 5) \<le> (L2 - ?T) / (?T * 5)"
        using T L by (simp add: divide_right_mono)
      have v1: "s1 = max 0 (1 - (L1 - ?T) / (?T * 5))"
        using s1(1) False T by (simp add: slo_score_def)
      have v2: "s2 = max 0 (1 - (L2 - ?T) / (?T * 5))"
        using s2(1) F2 T by (simp add: slo_score_def)
      from le show ?thesis unfolding v1 v2 by linarith
    qed
    with s1 s2 show "\<exists>s1 s2. slo_score cfg (Some L1) = Inr s1 \<and> slo_score cfg (Some L2) = Inr s2 \<and> s2 \<le> s1"
      by blast
  qed
  from a b c d e show ?thesis by blast
qed

theorem slo_score_spec_witness:
  "slo_score default_config None = Inr (1 / 2)
   \<and> 100 \<le> slo_p95_ms default_config \<and> slo_score default_config (Some 100) = Inr 1
   \<and> slo_p95_ms default_config < 700 \<and> slo_score default_config (Some 700) = Inr (1 / 2)
   \<and> 0 < slo_p95_ms default_config \<and> slo_p95_ms default_config * 6 \<le> 1200
   \<and> slo_score default_config (Some 1200) = Inr 0
   \<and> (\<exists>s1 s2. slo_score default_config (Some 700) = Inr s1
          \<and> slo_score default_config (Some 1300) = Inr s2 \<and> s2 \<le> s1)"
proof -
  have t: "slo_p95_ms default_config = 200" by (simp add: default_config_def)
  show ?thesis
    using slo_score_spec [where cfg = default_config and L = 100 and ?L1.0 = 700 and ?L2.0 = 1300]
      slo_score_spec [where cfg = default_config and L = 700 and ?L1.0 = 700 and ?L2.0 = 1300]
      slo_score_spec [where cfg = default_config and L = 1200 and ?L1.0 = 700 and ?L2.0 = 1300]
    by (simp add: t)
qed

section \<open>The decision\<close>

text \<open>
  Claim C4: the decided replica count is \<open>cur + 1\<close> exactly when the latency is present,
  exceeds the target and \<open>cur < max_replicas\<close>; \<open>cur - 1\<close> exactly when the latency is
  present, is below \<open>target * 0.6\<close> and \<open>cur > min_replicas\<close> (the target being non-negative,
  so that the two conditions exclude each other); and \<open>cur\<close> otherwise, in particular when
  the latency is absent. An iteration patches exactly when the decided count differs from
  \<open>cur\<close>, and never when reading the count failed.
\<close>

theorem decide_spec:
  "decide cfg None cur = cur
   \<and> decide cfg (Some L) cur
       = (if slo_p95_ms cfg < L \<and> cur < max_replicas cfg then cur + 1
          else if L < slo_p95_ms cfg * (6 / 10) \<and> min_replicas cfg < cur then cur - 1
          else cur)
   \<and> (decide cfg (Some L) cur = cur + 1 \<longleftrightarrow> slo_p95_ms cfg < L \<and> cur < max_replicas cfg)
   \<and> (0 \<le> slo_p95_ms cfg \<longrightarrow>
        (decide cfg (Some L) cur = cur - 1
           \<longleftrightarrow> L < slo_p95_ms cfg * (6 / 10) \<and> min_replicas cfg < cur))
   \<and> (read_replicas W = Inr cur \<longrightarrow> query_p95 W = Inr p \<longrightarrow>
        cycle cfg W st = Inr (q, sc, st') \<longrightarrow>
        q = (if decide cfg p cur \<noteq> cur then Some (decide cfg p cur) else None))
   \<and> (read_replicas W = Inl e \<longrightarrow> cycle cfg W st = Inr (q, sc, st') \<longrightarrow> q = None)"
proof -
  have a: "decide cfg None cur = cur" by (simp add: decide_def)
  have b: "decide cfg (Some L) cur
       = (if slo_p95_ms cfg < L \<and> cur < max_replicas cfg then cur + 1
          else if L < slo_p95_ms cfg * (6 / 10) \<and> min_replicas cfg < cur then cur - 1
          else cur)"
    by (simp add: decide_def)
  have c: "decide cfg (Some L) cur = cur + 1 \<longleftrightarrow> slo_p95_ms cfg < L \<and> cur < max_replicas cfg"
    unfolding b by simp
  have d: "0 \<le> slo_p95_ms cfg \<longrightarrow>
        (decide cfg (Some L) cur = cur - 1
           \<longleftrightarrow> L < slo_p95_ms cfg * (6 / 10) \<and> min_replicas cfg < cur)"
  proof
    assume T: "0 \<le> slo_p95_ms cfg"
    then have "slo_p95_ms cfg * (6 / 10) \<le> slo_p95_ms cfg" by simp
    then have "\<not> (slo_p95_ms cfg < L \<and> L < slo_p95_ms cfg * (6 / 10))" by linarith
    then show "decide cfg (Some L) cur = cur - 1
           \<longleftrightarrow> L < slo_p95_ms cfg * (6 / 10) \<and> min_replicas cfg < cur"
      unfolding b by auto
  qed
  have e: "read_replicas W = Inr cur \<longrightarrow> query_p95 W = Inr p \<longrightarrow>
        cycle cfg W st = Inr (q, sc, st') \<longrightarrow>
        q = (if decide cfg p cur \<noteq> cur then Some (decide cfg p cur) else None)"
    by (auto simp: cycle_def then_do_def Let_def split: sum.splits prod.splits)
  have f: "read_replicas W = Inl e \<longrightarrow> cycle cfg W st = Inr (q, sc, st') \<longrightarrow> q = None"
    by (auto simp: cycle_def then_do_def Let_def split: sum.splits prod.splits)
  from a b c d e f show ?thesis by blast
qed

theorem decide_spec_witness:
  "decide (default_config\<lparr>max_replicas := 5\<rparr>) (Some 250) 3 = 4
   \<and> decide (default_config\<lparr>max_replicas := 5\<rparr>) (Some 100) 3 = 2
   \<and> decide (default_config\<lparr>max_replicas := 5\<rparr>) (Some 150) 3 = 3
   \<and> decide (default_config\<lparr>max_replicas := 5\<rparr>) None 3 = 3
   \<and> 0 \<le> slo_p95_ms (default_config\<lparr>max_replicas := 5\<rparr>)
   \<and> read_replicas (offline 0 (prom_sample ''0.25'') (Inr 3)) = Inr 3
   \<and> query_p95 (offline 0 (prom_sample ''0.25'') (Inr 3)) = Inr (Some 250)
   \<and> (\<exists>sc st'. cycle (default_config\<lparr>max_replicas := 5\<rparr>)
                   (offline 0 (prom_sample ''0.25'') (Inr 3)) init_state = Inr (Some 4, sc, st'))
   \<and> query_p95 (offline 0 (prom_sample ''0.1'') (Inr 3)) = Inr (Some 100)
   \<and> (\<exists>sc st'. cycle (default_config\<lparr>max_replicas := 5\<rparr>)
                   (offline 0 (prom_sample ''0.1'') (Inr 3)) init_state = Inr (Some 2, sc, st'))
   \<and> query_p95 (offline 0 (prom_sample ''0.15'') (Inr 3)) = Inr (Some 150)
   \<and> (\<exists>sc st'. cycle (default_config\<lparr>max_replicas := 5\<rparr>)
                   (offline 0 (prom_sample ''0.15'') (Inr 3)) init_state = Inr (None, sc, st'))
   \<and> read_replicas (offline 0 (prom_sample ''0.25'') (Inl RequestException)) = Inl RequestException
   \<and> (\<exists>sc st'. cycle (default_config\<lparr>max_replicas := 5\<rparr>)
                   (offline 0 (prom_sample ''0.25'') (Inl RequestException)) init_state
                 = Inr (None, sc, st'))"
proof -
  let ?cfg = "default_config\<lparr>max_replicas := 5\<rparr>"
  have c: "slo_p95_ms ?cfg = 200" "max_replicas ?cfg = 5" "min_replicas ?cfg = 1"
    by (simp_all add: default_config_def)
  have q: "query_p95 (offline 0 (prom_sample ''0.25'') (Inr 3)) = Inr (Some 250)"
    "query_p95 (offline 0 (prom_sample ''0.1'') (Inr 3)) = Inr (Some 100)"
    "query_p95 (offline 0 (prom_sample ''0.15'') (Inr 3)) = Inr (Some 150)"
    by (simp_all add: python_defs example_defs query_p95_def query_p95_try_def)
  have r: "read_replicas (offline 0 (prom_sample ''0.25'') (Inr 3)) = Inr 3"
    "read_replicas (offline 0 (prom_sample ''0.25'') (Inl RequestException)) = Inl RequestException"
    by (simp_all add: offline_def)
  have y: "\<exists>sc st'. cycle ?cfg (offline 0 (prom_sample ''0.25'') (Inr 3)) init_state = Inr (Some 4, sc, st')"
    "\<exists>sc st'. cycle ?cfg (offline 0 (prom_sample ''0.1'') (Inr 3)) init_state = Inr (Some 2, sc, st')"
    "\<exists>sc st'. cycle ?cfg (offline 0 (prom_sample ''0.15'') (Inr 3)) init_state = Inr (None, sc, st')"
    "\<exists>sc st'. cycle ?cfg (offline 0 (prom_sample ''0.25'') (Inl RequestException)) init_state
                 = Inr (None, sc, st')"
    by (simp_all add: python_defs example_defs loop_defs)
  from y(1) obtain sc1 st1 where
    c1: "cycle ?cfg (offline 0 (prom_sample ''0.25'') (Inr 3)) init_state = Inr (Some 4, sc1, st1)"
    by blast
  from y(2) obtain sc2 st2 where
    c2: "cycle ?cfg (offline 0 (prom_sample ''0.1'') (Inr 3)) init_state = Inr (Some 2, sc2, st2)"
    by blast
  from y(3) obtain sc3 st3 where
    c3: "cycle ?cfg (offline 0 (prom_sample ''0.15'') (Inr 3)) init_state = Inr (None, sc3, st3)"
    by blast
  from y(4) obtain sc4 st4 where
    c4: "cycle ?cfg (offline 0 (prom_sample ''0.25'') (Inl RequestException)) init_state
           = Inr (None, sc4, st4)"
    by blast
  have r': "read_replicas (offline 0 (prom_sample ''0.1'') (Inr 3)) = Inr 3"
    "read_replicas (offline 0 (prom_sample ''0.15'') (Inr 3)) = Inr 3"
    by (simp_all add: offline_def)
  have t: "0 \<le> slo_p95_ms ?cfg" by (simp add: c)
  note A1 = decide_spec [where cfg = ?cfg and cur = 3 and L = 250 and p = "Some 250"
          and W = "offline 0 (prom_sample ''0.25'') (Inr 3)" and st = init_state
          and q = "Some 4" and sc = sc1 and st' = st1]
  note A2 = decide_spec [where cfg = ?cfg and cur = 3 and L = 100 and p = "Some 100"
          and W = "offline 0 (prom_sample ''0.1'') (Inr 3)" and st = init_state
          and q = "Some 2" and sc = sc2 and st' = st2]
  note A3 = decide_spec [where cfg = ?cfg and cur = 3 and L = 150 and p = "Some 150"
          and W = "offline 0 (prom_sample ''0.15'') (Inr 3)" and st = init_state
          and q = None and sc = sc3 and st' = st3]
  have p1: "Some 4 = (if decide ?cfg (Some 250) 3 \<noteq> 3 then Some (decide ?cfg (Some 250) 3) else None)"
    using A1 r(1) q(1) c1 by blast
  have p2: "Some 2 = (if decide ?cfg (Some 100) 3 \<noteq> 3 then Some (decide ?cfg (Some 100) 3) else None)"
    using A2 r'(1) q(2) c2 by blast
  have p3: "None = (if decide ?cfg (Some 150) 3 \<noteq> 3 then Some (decide ?cfg (Some 150) 3) else None)"
    using A3 r'(2) q(3) c3 by blast
  have d1: "decide ?cfg (Some 250) 3 = 4" using p1 by (simp split: if_splits)
  have d2: "decide ?cfg (Some 100) 3 = 2" using p2 by (simp split: if_splits)
  have d3: "decide ?cfg (Some 150) 3 = 3" using p3 by (simp split: if_splits)
  have d4: "decide ?cfg None 3 = 3" using A1 by blast
  have p4: "(None :: int option) = None"
    using decide_spec [where cfg = ?cfg and e = RequestException
          and W = "offline 0 (prom_sample ''0.25'') (Inl RequestException)" and st = init_state
          and q = None and sc = sc4 and st' = st4] r(2) c4
    by blast
  from d1 d2 d3 d4 t r(1) q(1) y(1) q(2) y(2) q(3) y(3) r(2) y(4) show ?thesis by blast
qed

section \<open>The resolver\<close>

lemma get_carbon_miss:
  assumes "carbon_cache st region = None
           \<or> (\<exists>v t. carbon_cache st region = Some (v, t) \<and> \<not> now W - t < cache_ttl cfg)"
  shows "get_carbon cfg W region st = Inr (refresh cfg W region st)"
  using assms by (auto simp: get_carbon_def split: option.splits)

lemma do_POST_state:
  assumes "path rq = ''/update_carbon''" and "content_length rq = Numeric n" and "0 < n"
    and "body rq = Decoded (JObj kvs)"
    and "hashable (case map_of kvs ''region'' of None \<Rightarrow> JStr ''local'' | Some r \<Rightarrow> r) = Inr k"
    and "py_float (float_str W) (case map_of kvs ''carbon'' of None \<Rightarrow> JNull | Some c \<Rightarrow> c) = Inr v"
  shows "snd (do_POST W rq st)
           = \<lparr>carbon_map = (carbon_map st)(k \<mapsto> v),
              carbon_cache = (carbon_cache st)(k \<mapsto> (v, now W))\<rparr>"
  using assms
  by (simp add: do_POST_def try_update_def update_carbon_def then_do_def
      split: option.splits sum.splits)

lemma do_POST_ok:
  assumes "path rq = ''/update_carbon''" and "content_length rq = Numeric n" and "0 < n"
    and "body rq = Decoded (JObj kvs)"
    and "hashable (case map_of kvs ''region'' of None \<Rightarrow> JStr ''local'' | Some r \<Rightarrow> r) = Inr k"
    and "py_float (float_str W) (case map_of kvs ''carbon'' of None \<Rightarrow> JNull | Some c \<Rightarrow> c) = Inr v"
    and "print_update W = None" and "broken_after W = None"
  shows "fst (do_POST W rq st) = ([Head 200, Payload ''ok''], Returned)"
  using assms
  by (simp add: do_POST_def try_update_def update_carbon_def then_do_def wfile_write_def)

lemma update_carbon_ok_iff:
  "(\<exists>st'. update_carbon W raw st = Inr st') \<longleftrightarrow> body_ok W raw"
proof (cases raw)
  case None
  then show ?thesis by (simp add: update_carbon_def then_do_def body_ok_def)
next
  case (Some j)
  show ?thesis
  proof (cases j)
    case (JObj kvs)
    show ?thesis
      unfolding Some JObj
      by (auto simp: update_carbon_def then_do_def body_ok_def split: sum.splits option.splits)
  qed (simp_all add: Some update_carbon_def then_do_def body_ok_def)
qed

lemma do_POST_try:
  assumes "path rq = ''/update_carbon''" and "readable rq"
  shows "do_POST W rq st = try_update W (decoded rq) st"
  using assms
  by (cases "content_length rq"; cases "body rq")
    (auto simp: do_POST_def readable_def decoded_def split: if_splits)

lemma do_POST_unreadable:
  assumes "\<not> readable rq"
  shows "snd (do_POST W rq st) = st" and "fst (do_POST W rq st) \<noteq> ([Head 200, Payload ''ok''], Returned)"
  using assms
  by (cases "content_length rq"; cases "body rq";
      simp add: do_POST_def readable_def wfile_write_def split: option.splits if_splits)+

lemma reject_not_ok:
  "length sent \<le> 1 \<Longrightarrow> fst (reject W sent) \<noteq> [Head 200, Payload ''ok'']"
  by (cases sent) (auto simp: reject_def wfile_write_def split: option.splits if_splits)

lemma try_update_refused:
  assumes "\<not> body_ok W raw"
  shows "snd (try_update W raw st) = st"
    and "fst (try_update W raw st) \<noteq> ([Head 200, Payload ''ok''], Returned)"
    and "print_error W = None \<Longrightarrow> broken_after W = None \<Longrightarrow>
         try_update W raw st = (([Head 400], Returned), st)"
proof -
  from assms update_carbon_ok_iff[of W raw st] obtain e where e: "update_carbon W raw st = Inl e"
    by (cases "update_carbon W raw st") auto
  show "snd (try_update W raw st) = st" by (simp add: try_update_def e)
  show "fst (try_update W raw st) \<noteq> ([Head 200, Payload ''ok''], Returned)"
    using reject_not_ok[of "[]" W] by (simp add: try_update_def e prod_eq_iff)
  show "try_update W raw st = (([Head 400], Returned), st)"
    if "print_error W = None" and "broken_after W = None"
    using that by (simp add: try_update_def e reject_def wfile_write_def)
qed

lemma try_update_accepted:
  assumes "body_ok W raw" and "print_update W = None" and "broken_after W = None"
  shows "fst (try_update W raw st) = ([Head 200, Payload ''ok''], Returned)"
proof -
  from assms(1) update_carbon_ok_iff[of W raw st] obtain st' where "update_carbon W raw st = Inr st'"
    by blast
  then show ?thesis using assms(2,3) by (simp add: try_update_def wfile_write_def)
qed

lemma slo_score_returns:
  assumes "slo_p95_ms cfg \<noteq> 0"
  shows "\<exists>s. slo_score cfg p = Inr s"
proof (cases p)
  case None
  then have "slo_score cfg p = Inr (1 / 2)" by (simp add: slo_score_def)
  then show ?thesis by blast
next
  case (Some L)
  with assms show ?thesis by (simp add: slo_score_def)
qed

text \<open>
  Claim C5: when the cache entry for the region is absent or expired, the resolver takes the
  value of electricitymap if that provider is enabled and yields one; otherwise, electricitymap
  being disabled or yielding no value, the value of watttime if that provider is enabled and
  yields one; otherwise the entry of \<open>carbon_map\<close> for the region, and the global default if
  the region is absent from that map. In every case it returns the value obtained together
  with the state in which the cache entry of the region is that value with the current time.
\<close>

theorem get_carbon_fallback_order:
  assumes "carbon_cache st region = None
           \<or> (\<exists>v t. carbon_cache st region = Some (v, t) \<and> \<not> now W - t < cache_ttl cfg)"
  shows "\<exists>val. get_carbon cfg W region st
                 = Inr (val, st\<lparr>carbon_cache := (carbon_cache st)(region \<mapsto> (val, now W))\<rparr>)
           \<and> (\<forall>x. enabled (electricitymap cfg) \<longrightarrow>
                  fetch_electricitymap cfg W
                    (case zone (electricitymap cfg) of None \<Rightarrow> region | Some z \<Rightarrow> z)
                    = Inr (Some x) \<longrightarrow> val = x)
           \<and> (\<forall>x. (\<not> enabled (electricitymap cfg)
                   \<or> fetch_electricitymap cfg W
                        (case zone (electricitymap cfg) of None \<Rightarrow> region | Some z \<Rightarrow> z)
                        = Inr None) \<longrightarrow>
                  enabled (watttime cfg) \<longrightarrow> fetch_watttime_index cfg W = Inr (Some x) \<longrightarrow>
                  val = x)
           \<and> ((\<not> enabled (electricitymap cfg)
                   \<or> fetch_electricitymap cfg W
                        (case zone (electricitymap cfg) of None \<Rightarrow> region | Some z \<Rightarrow> z)
                        = Inr None) \<longrightarrow>
                (\<not> enabled (watttime cfg) \<or> fetch_watttime_index cfg W = Inr None) \<longrightarrow>
                val = (case carbon_map st region of Some m \<Rightarrow> m | None \<Rightarrow> default_carbon cfg))"
proof -
  obtain val st' where r: "refresh cfg W region st = (val, st')" by (cases "refresh cfg W region st")
  then have st': "st' = st\<lparr>carbon_cache := (carbon_cache st)(region \<mapsto> (val, now W))\<rparr>"
    by (auto simp: refresh_def Let_def)
  have val: "val = (case try_providers cfg W region of
                   Some v \<Rightarrow> v
                 | None \<Rightarrow> (case carbon_map st region of Some m \<Rightarrow> m | None \<Rightarrow> default_carbon cfg))"
    using r by (auto simp: refresh_def Let_def)
  have g: "get_carbon cfg W region st
             = Inr (val, st\<lparr>carbon_cache := (carbon_cache st)(region \<mapsto> (val, now W))\<rparr>)"
    using get_carbon_miss[OF assms] r st' by simp
  have a: "\<forall>x. enabled (electricitymap cfg) \<longrightarrow>
                  fetch_electricitymap cfg W
                    (case zone (electricitymap cfg) of None \<Rightarrow> region | Some z \<Rightarrow> z)
                    = Inr (Some x) \<longrightarrow> val = x"
    unfolding val by (simp add: try_providers_def Let_def)
  have b: "\<forall>x. (\<not> enabled (electricitymap cfg)
                   \<or> fetch_electricitymap cfg W
                        (case zone (electricitymap cfg) of None \<Rightarrow> region | Some z \<Rightarrow> z)
                        = Inr None) \<longrightarrow>
                  enabled (watttime cfg) \<longrightarrow> fetch_watttime_index cfg W = Inr (Some x) \<longrightarrow>
                  val = x"
    unfolding val by (auto simp: try_providers_def Let_def)
  have c: "(\<not> enabled (electricitymap cfg)
                   \<or> fetch_electricitymap cfg W
                        (case zone (electricitymap cfg) of None \<Rightarrow> region | Some z \<Rightarrow> z)
                        = Inr None) \<longrightarrow>
                (\<not> enabled (watttime cfg) \<or> fetch_watttime_index cfg W = Inr None) \<longrightarrow>
                val = (case carbon_map st region of Some m \<Rightarrow> m | None \<Rightarrow> default_carbon cfg)"
    unfolding val by (auto simp: try_providers_def Let_def)
  from g a b c show ?thesis by blast
qed

theorem get_carbon_fallback_order_witness:
  "carbon_cache (init_state\<lparr>carbon_map := [KStr ''eu'' \<mapsto> 120]\<rparr>) (KStr ''eu'') = None
   \<and> \<not> enabled (electricitymap (default_config\<lparr>watttime := live_provider\<rparr>))
   \<and> enabled (watttime (default_config\<lparr>watttime := live_provider\<rparr>))
   \<and> fetch_watttime_index (default_config\<lparr>watttime := live_provider\<rparr>)
        (offline 7 (Inl RequestException) (Inr 2)) = Inr None
   \<and> get_carbon (default_config\<lparr>watttime := live_provider\<rparr>)
        (offline 7 (Inl RequestException) (Inr 2)) (KStr ''eu'')
        (init_state\<lparr>carbon_map := [KStr ''eu'' \<mapsto> 120]\<rparr>)
       = Inr (120, init_state\<lparr>carbon_map := [KStr ''eu'' \<mapsto> 120],
                              carbon_cache := [KStr ''eu'' \<mapsto> (120, 7)]\<rparr>)
   \<and> carbon_cache prior_state (KStr ''eu'') = Some (410, 0)
   \<and> \<not> now (offline 1000 (Inl RequestException) (Inr 2)) - 0 < cache_ttl default_config
   \<and> get_carbon default_config (offline 1000 (Inl RequestException) (Inr 2)) (KStr ''eu'')
        prior_state
       = Inr (400, prior_state\<lparr>carbon_cache := [KStr ''eu'' \<mapsto> (400, 1000)]\<rparr>)
   \<and> get_carbon default_config (offline 1000 (Inl RequestException) (Inr 2)) (KStr ''us'')
        prior_state
       = Inr (300, prior_state\<lparr>carbon_cache := [KStr ''eu'' \<mapsto> (410, 0),
                                                  KStr ''us'' \<mapsto> (300, 1000)]\<rparr>)"
proof -
  let ?cfg = "default_config\<lparr>watttime := live_provider\<rparr>"
  let ?W = "offline 7 (Inl RequestException) (Inr 2)"
  let ?st = "init_state\<lparr>carbon_map := [KStr ''eu'' \<mapsto> 120]\<rparr>"
  let ?V = "offline 1000 (Inl RequestException) (Inr 2)"
  have m1: "carbon_cache ?st (KStr ''eu'') = None" by (simp add: init_state_def)
  have e1: "\<not> enabled (electricitymap ?cfg)" "enabled (watttime ?cfg)"
    by (simp_all add: example_defs)
  have w1: "fetch_watttime_index ?cfg ?W = Inr None"
    by (simp add: fetch_watttime_index_def fetch_watttime_index_try_def python_defs example_defs)
  have r1: "get_carbon ?cfg ?W (KStr ''eu'') ?st
       = Inr (120, init_state\<lparr>carbon_map := [KStr ''eu'' \<mapsto> 120],
                              carbon_cache := [KStr ''eu'' \<mapsto> (120, 7)]\<rparr>)"
    using get_carbon_fallback_order [of ?st "KStr ''eu''" ?W ?cfg] m1 e1 w1
    by (auto simp: example_defs)
  have m2: "carbon_cache prior_state (KStr ''eu'') = Some (410, 0)"
    "\<not> now ?V - 0 < cache_ttl default_config"
    "carbon_cache prior_state (KStr ''us'') = None"
    by (simp_all add: example_defs)
  have e2: "\<not> enabled (electricitymap default_config)" "\<not> enabled (watttime default_config)"
    by (simp_all add: example_defs)
  have r2: "get_carbon default_config ?V (KStr ''eu'') prior_state
       = Inr (400, prior_state\<lparr>carbon_cache := [KStr ''eu'' \<mapsto> (400, 1000)]\<rparr>)"
    using get_carbon_fallback_order [of prior_state "KStr ''eu''" ?V default_config] m2 e2
    by (auto simp: example_defs)
  have r3: "get_carbon default_config ?V (KStr ''us'') prior_state
       = Inr (300, prior_state\<lparr>carbon_cache := [KStr ''eu'' \<mapsto> (410, 0),
                                                  KStr ''us'' \<mapsto> (300, 1000)]\<rparr>)"
    using get_carbon_fallback_order [of prior_state "KStr ''us''" ?V default_config] m2 e2
    by (auto simp: example_defs)
  from m1 e1 w1 r1 m2(1,2) r2 r3 show ?thesis by blast
qed

text \<open>
  Claim C6: after a successful POST to \<^verbatim>\<open>/update_carbon\<close> with the body
  \<^verbatim>\<open>{region: R, carbon: v}\<close>, a call of the resolver for \<open>R\<close> made before the TTL has elapsed
  since the request returns \<open>v\<close>, whatever the cache, the fallback table and the providers
  held before, and leaves the state as it is. The request is answered with 200 "ok" when
  its log line is printed and the connection holds; the value is stored, and read back, in
  either case.
\<close>

theorem read_after_ingest:
  assumes "path rq = ''/update_carbon''" and "content_length rq = Numeric n" and "0 < n"
    and "body rq = Decoded (JObj kvs)"
    and "map_of kvs ''region'' = Some (JStr R)" and "map_of kvs ''carbon'' = Some c"
    and "py_float (float_str W1) c = Inr v"
    and "now W2 - now W1 < cache_ttl cfg"
  shows "(print_update W1 = None \<longrightarrow> broken_after W1 = None \<longrightarrow>
            fst (do_POST W1 rq st) = ([Head 200, Payload ''ok''], Returned))
         \<and> get_carbon cfg W2 (KStr R) (snd (do_POST W1 rq st)) = Inr (v, snd (do_POST W1 rq st))"
proof -
  have k: "hashable (case map_of kvs ''region'' of None \<Rightarrow> JStr ''local'' | Some r \<Rightarrow> r)
             = Inr (KStr R)"
    using assms(5) by simp
  have f: "py_float (float_str W1) (case map_of kvs ''carbon'' of None \<Rightarrow> JNull | Some c \<Rightarrow> c)
             = Inr v"
    using assms(6,7) by simp
  have s: "snd (do_POST W1 rq st)
           = \<lparr>carbon_map = (carbon_map st)(KStr R \<mapsto> v),
              carbon_cache = (carbon_cache st)(KStr R \<mapsto> (v, now W1))\<rparr>"
    by (rule do_POST_state[OF assms(1-4) k f])
  have g: "get_carbon cfg W2 (KStr R) (snd (do_POST W1 rq st)) = Inr (v, snd (do_POST W1 rq st))"
    unfolding s using assms(8) by (simp add: get_carbon_def)
  have a: "print_update W1 = None \<longrightarrow> broken_after W1 = None \<longrightarrow>
            fst (do_POST W1 rq st) = ([Head 200, Payload ''ok''], Returned)"
    using do_POST_ok[OF assms(1-4) k f] by blast
  from a g show ?thesis by blast
qed

theorem read_after_ingest_witness:
  "path eu_update = ''/update_carbon'' \<and> content_length eu_update = Numeric 40
   \<and> body eu_update = Decoded (JObj [(''region'', JStr ''eu''), (''carbon'', JInt 50)])
   \<and> py_float (float_str (answering 5 (JObj [(''carbonIntensity'', JInt 999)]))) (JInt 50) = Inr 50
   \<and> now (answering 5 (JObj [(''carbonIntensity'', JInt 999)]))
        - now (answering 5 (JObj [(''carbonIntensity'', JInt 999)]))
       < cache_ttl (default_config\<lparr>electricitymap := live_provider\<rparr>)
   \<and> fetch_electricitymap (default_config\<lparr>electricitymap := live_provider\<rparr>)
        (answering 5 (JObj [(''carbonIntensity'', JInt 999)])) (KStr ''eu'') = Inr (Some 999)
   \<and> carbon_cache prior_state (KStr ''eu'') = Some (410, 0)
   \<and> do_POST (answering 5 (JObj [(''carbonIntensity'', JInt 999)])) eu_update prior_state
       = (([Head 200, Payload ''ok''], Returned),
          \<lparr>carbon_map = [KStr ''eu'' \<mapsto> 50], carbon_cache = [KStr ''eu'' \<mapsto> (50, 5)]\<rparr>)
   \<and> get_carbon (default_config\<lparr>electricitymap := live_provider\<rparr>)
        (answering 5 (JObj [(''carbonIntensity'', JInt 999)])) (KStr ''eu'')
        \<lparr>carbon_map = [KStr ''eu'' \<mapsto> 50], carbon_cache = [KStr ''eu'' \<mapsto> (50, 5)]\<rparr>
       = Inr (50, \<lparr>carbon_map = [KStr ''eu'' \<mapsto> 50], carbon_cache = [KStr ''eu'' \<mapsto> (50, 5)]\<rparr>)"
proof -
  let ?W = "answering 5 (JObj [(''carbonIntensity'', JInt 999)])"
  let ?cfg = "default_config\<lparr>electricitymap := live_provider\<rparr>"
  let ?kvs = "[(''region'', JStr ''eu''), (''carbon'', JInt 50)]"
  let ?st1 = "\<lparr>carbon_map = [KStr ''eu'' \<mapsto> 50], carbon_cache = [KStr ''eu'' \<mapsto> (50, 5)]\<rparr>"
  have h1: "path eu_update = ''/update_carbon''" by (simp add: example_defs)
  have h2: "content_length eu_update = Numeric 40" by (simp add: example_defs)
  have h3: "(0::int) < 40" by simp
  have h4: "body eu_update = Decoded (JObj ?kvs)" by (simp add: example_defs)
  have h5: "map_of ?kvs ''region'' = Some (JStr ''eu'')" by simp
  have h6: "map_of ?kvs ''carbon'' = Some (JInt 50)" by simp
  have h7: "py_float (float_str ?W) (JInt 50) = Inr 50" by (simp add: float_limit_def)
  have h8: "now ?W - now ?W < cache_ttl ?cfg" by (simp add: example_defs)
  have io: "print_update ?W = None" "broken_after ?W = None" by (simp_all add: example_defs)
  have f: "fetch_electricitymap ?cfg ?W (KStr ''eu'') = Inr (Some 999)"
    by (simp add: fetch_electricitymap_def fetch_electricitymap_try_def has_data_intensity_def
        python_defs example_defs)
  have c: "carbon_cache prior_state (KStr ''eu'') = Some (410, 0)" by (simp add: example_defs)
  have s: "snd (do_POST ?W eu_update prior_state) = ?st1"
    by (simp add: handler_defs python_defs example_defs)
  note th = read_after_ingest [OF h1 h2 h3 h4 h5 h6 h7 h8, of prior_state]
  have a: "fst (do_POST ?W eu_update prior_state) = ([Head 200, Payload ''ok''], Returned)"
    using th io by blast
  have p: "do_POST ?W eu_update prior_state = (([Head 200, Payload ''ok''], Returned), ?st1)"
    using a s by (simp add: prod_eq_iff)
  have g: "get_carbon ?cfg ?W (KStr ''eu'') ?st1 = Inr (50, ?st1)"
    using th [THEN conjunct2] unfolding s .
  from h1 h2 h4 h7 h8 f c p g show ?thesis by blast
qed

text \<open>
  Claim C7: the resolver is total. For every configuration, region, state and outcome of the
  HTTP calls, each provider fetch returns (a value or none, never an exception) and
  \<^verbatim>\<open>get_carbon\<close> returns a number.
\<close>

theorem get_carbon_total:
  "(\<exists>r. fetch_electricitymap cfg W zn = Inr r)
   \<and> (\<exists>r. fetch_watttime_index cfg W = Inr r)
   \<and> (\<exists>v st'. get_carbon cfg W region st = Inr (v, st'))"
proof -
  have "\<exists>v st'. get_carbon cfg W region st = Inr (v, st')"
    by (cases "refresh cfg W region st") (auto simp: get_carbon_def split: option.splits)
  then show ?thesis
    using fetch_electricitymap_total fetch_watttime_index_total by blast
qed

theorem get_carbon_total_witness:
  "fetch_electricitymap_try (answering 3 (JObj [(''data'', JNum 3)])) ''secret''
       ''https://provider.example/latest'' (KStr ''eu'') = Inl TypeError
   \<and> fetch_watttime_index_try (offline 3 (Inl RequestException) (Inr 2)) ''secret''
       ''https://provider.example/latest'' = Inl RequestException
   \<and> (\<exists>r. fetch_electricitymap
             (default_config\<lparr>electricitymap := live_provider, watttime := live_provider\<rparr>)
             (answering 3 (JObj [(''data'', JNum 3)])) (KStr ''eu'') = Inr r)
   \<and> (\<exists>r. fetch_watttime_index
             (default_config\<lparr>electricitymap := live_provider, watttime := live_provider\<rparr>)
             (answering 3 (JObj [(''data'', JNum 3)])) = Inr r)
   \<and> (\<exists>v st'. get_carbon
             (default_config\<lparr>electricitymap := live_provider, watttime := live_provider\<rparr>)
             (answering 3 (JObj [(''data'', JNum 3)])) (KStr ''eu'') init_state = Inr (v, st'))"
proof -
  have a: "fetch_electricitymap_try (answering 3 (JObj [(''data'', JNum 3)])) ''secret''
       ''https://provider.example/latest'' (KStr ''eu'') = Inl TypeError"
    by (simp add: fetch_electricitymap_try_def has_data_intensity_def python_defs example_defs)
  have b: "fetch_watttime_index_try (offline 3 (Inl RequestException) (Inr 2)) ''secret''
       ''https://provider.example/latest'' = Inl RequestException"
    by (simp add: fetch_watttime_index_try_def python_defs example_defs)
  show ?thesis
    using a b
      get_carbon_total [of "default_config\<lparr>electricitymap := live_provider, watttime := live_provider\<rparr>"
        "answering 3 (JObj [(''data'', JNum 3)])" "KStr ''eu''" "KStr ''eu''" init_state]
    by blast
qed

section \<open>The update endpoint: responses\<close>

text \<open>
  Claim C8, as stated, fails in both directions. A body that is valid JSON and whose
  \<^verbatim>\<open>carbon\<close> is a number is answered with 400 when its \<^verbatim>\<open>region\<close> is an array or an object: the
  region is used as a dict key and the \<^verbatim>\<open>TypeError\<close> is caught like every other exception.
  And a request can be answered with 400 after the cache and the fallback table were
  changed: the \<^verbatim>\<open>print\<close> of line 199 runs inside the \<^verbatim>\<open>try\<close> after the two assignments, and it
  raises \<^verbatim>\<open>UnicodeEncodeError\<close> for a region such as the lone surrogate U+D800.
\<close>

theorem rejected_and_changed_counterexample:
  "py_float (float_str (offline 0 (Inl RequestException) (Inr 2))) (JInt 50) = Inr 50
   \<and> do_POST (offline 0 (Inl RequestException) (Inr 2))
        (update_request (JObj [(''region'', JArr [JStr ''eu'']), (''carbon'', JInt 50)]))
        prior_state
       = (([Head 400], Returned), prior_state)
   \<and> fst (do_POST ((offline 0 (Inl RequestException) (Inr 2))\<lparr>print_update := Some UnicodeEncodeError\<rparr>)
        (update_request (JObj [(''region'', JStr lone_surrogate), (''carbon'', JInt 50)]))
        prior_state)
       = ([Head 400], Returned)
   \<and> carbon_map prior_state (KStr lone_surrogate) = None
   \<and> carbon_map
        (snd (do_POST ((offline 0 (Inl RequestException) (Inr 2))\<lparr>print_update := Some UnicodeEncodeError\<rparr>)
           (update_request (JObj [(''region'', JStr lone_surrogate), (''carbon'', JInt 50)]))
           prior_state))
        (KStr lone_surrogate) = Some 50"
  by (simp add: handler_defs python_defs example_defs lone_surrogate_def)

text \<open>
  Claim C8, amended: a request for any path other than \<^verbatim>\<open>/update_carbon\<close> is answered with
  404. On \<^verbatim>\<open>/update_carbon\<close>, with a \<^verbatim>\<open>Content-Length\<close> header that is absent or an integer and
  a body that can be read, and when the log lines are printed and the connection holds, the
  answer is 200 "ok" exactly when the body (taken as \<^verbatim>\<open>{}\<close> unless \<^verbatim>\<open>Content-Length\<close> is
  positive) is a JSON object whose \<^verbatim>\<open>carbon\<close> member converts to a number with \<^verbatim>\<open>float\<close> (an
  integer beyond the range of a double does not) and whose \<^verbatim>\<open>region\<close> member, when present,
  is null, a boolean, a number or a string; every other request on that path is answered with
  400. Whatever happens to the log and the connection, 200 "ok" is only ever the answer to
  such a body on that path, and a request refused for its path, its \<^verbatim>\<open>Content-Length\<close> or its
  body leaves the cache and the fallback table unchanged.
\<close>

theorem do_POST_responses:
  "(path rq \<noteq> ''/update_carbon'' \<longrightarrow> broken_after W = None \<longrightarrow>
      do_POST W rq st = (([Head 404], Returned), st))
   \<and> (path rq = ''/update_carbon'' \<longrightarrow> readable rq \<longrightarrow>
        print_update W = None \<longrightarrow> print_error W = None \<longrightarrow> broken_after W = None \<longrightarrow>
        (fst (do_POST W rq st) = ([Head 200, Payload ''ok''], Returned) \<longleftrightarrow> accepted W rq)
        \<and> (\<not> accepted W rq \<longrightarrow> do_POST W rq st = (([Head 400], Returned), st)))
   \<and> (fst (do_POST W rq st) = ([Head 200, Payload ''ok''], Returned) \<longrightarrow>
        path rq = ''/update_carbon'' \<and> accepted W rq)
   \<and> (path rq \<noteq> ''/update_carbon'' \<or> \<not> accepted W rq \<longrightarrow> snd (do_POST W rq st) = st)"
proof -
  have a: "path rq \<noteq> ''/update_carbon'' \<longrightarrow> broken_after W = None \<longrightarrow>
      do_POST W rq st = (([Head 404], Returned), st)"
    by (simp add: do_POST_def wfile_write_def)
  have c: "fst (do_POST W rq st) = ([Head 200, Payload ''ok''], Returned) \<longrightarrow>
        path rq = ''/update_carbon'' \<and> accepted W rq"
  proof
    assume ok: "fst (do_POST W rq st) = ([Head 200, Payload ''ok''], Returned)"
    have p: "path rq = ''/update_carbon''"
    proof (rule ccontr)
      assume "path rq \<noteq> ''/update_carbon''"
      with ok show False
        by (auto simp: do_POST_def wfile_write_def split: option.splits if_splits)
    qed
    have r: "readable rq" using ok do_POST_unreadable(2)[of rq W st] by blast
    have "body_ok W (decoded rq)"
      using ok try_update_refused(2)[of W "decoded rq" st] unfolding do_POST_try[OF p r] by blast
    with p r show "path rq = ''/update_carbon'' \<and> accepted W rq" by (simp add: accepted_def)
  qed
  have b: "path rq = ''/update_carbon'' \<longrightarrow> readable rq \<longrightarrow>
        print_update W = None \<longrightarrow> print_error W = None \<longrightarrow> broken_after W = None \<longrightarrow>
        (fst (do_POST W rq st) = ([Head 200, Payload ''ok''], Returned) \<longleftrightarrow> accepted W rq)
        \<and> (\<not> accepted W rq \<longrightarrow> do_POST W rq st = (([Head 400], Returned), st))"
  proof (intro impI)
    assume p: "path rq = ''/update_carbon''" and r: "readable rq"
      and io: "print_update W = None" "print_error W = None" "broken_after W = None"
    have acc: "accepted W rq = body_ok W (decoded rq)" using r by (simp add: accepted_def)
    show "(fst (do_POST W rq st) = ([Head 200, Payload ''ok''], Returned) \<longleftrightarrow> accepted W rq)
        \<and> (\<not> accepted W rq \<longrightarrow> do_POST W rq st = (([Head 400], Returned), st))"
      using c try_update_accepted[OF _ io(1,3), of "decoded rq" st]
        try_update_refused(3)[OF _ io(2,3), of "decoded rq" st]
      unfolding acc do_POST_try[OF p r] by blast
  qed
  have e: "path rq \<noteq> ''/update_carbon'' \<or> \<not> accepted W rq \<longrightarrow> snd (do_POST W rq st) = st"
  proof
    assume h: "path rq \<noteq> ''/update_carbon'' \<or> \<not> accepted W rq"
    show "snd (do_POST W rq st) = st"
    proof (cases "path rq \<noteq> ''/update_carbon''")
      case True
      then show ?thesis by (simp add: do_POST_def split: sum.splits)
    next
      case False
      then have p: "path rq = ''/update_carbon''" by simp
      show ?thesis
      proof (cases "readable rq")
        case False
        then show ?thesis by (rule do_POST_unreadable(1))
      next
        case True
        with h p have "\<not> body_ok W (decoded rq)" by (simp add: accepted_def)
        then show ?thesis unfolding do_POST_try[OF p True] by (rule try_update_refused(1))
      qed
    qed
  qed
  from a b c e show ?thesis by blast
qed

theorem do_POST_responses_witness:
  "do_POST (offline 0 (Inl RequestException) (Inr 2))
        (eu_update\<lparr>path := ''/metrics''\<rparr>) prior_state = (([Head 404], Returned), prior_state)
   \<and> readable eu_update
   \<and> accepted (offline 0 (Inl RequestException) (Inr 2)) eu_update
   \<and> fst (do_POST (offline 0 (Inl RequestException) (Inr 2)) eu_update prior_state)
       = ([Head 200, Payload ''ok''], Returned)
   \<and> \<not> accepted (offline 0 (Inl RequestException) (Inr 2)) (eu_update\<lparr>body := Undecodable\<rparr>)
   \<and> do_POST (offline 0 (Inl RequestException) (Inr 2)) (eu_update\<lparr>body := Undecodable\<rparr>)
        prior_state
       = (([Head 400], Returned), prior_state)
   \<and> \<not> accepted (offline 0 (Inl RequestException) (Inr 2))
          (update_request (JObj [(''region'', JStr ''eu'')]))
   \<and> do_POST (offline 0 (Inl RequestException) (Inr 2))
        (update_request (JObj [(''region'', JStr ''eu'')])) prior_state
       = (([Head 400], Returned), prior_state)
   \<and> \<not> accepted (offline 0 (Inl RequestException) (Inr 2))
          (update_request (JObj [(''region'', JStr ''eu''), (''carbon'', JStr ''high'')]))
   \<and> do_POST (offline 0 (Inl RequestException) (Inr 2))
        (update_request (JObj [(''region'', JStr ''eu''), (''carbon'', JStr ''high'')])) prior_state
       = (([Head 400], Returned), prior_state)
   \<and> \<not> accepted (offline 0 (Inl RequestException) (Inr 2))
          (update_request (JObj [(''region'', JStr ''eu''), (''carbon'', JInt (2 ^ 1024))]))
   \<and> do_POST (offline 0 (Inl RequestException) (Inr 2))
        (update_request (JObj [(''region'', JStr ''eu''), (''carbon'', JInt (2 ^ 1024))])) prior_state
       = (([Head 400], Returned), prior_state)
   \<and> \<not> accepted (offline 0 (Inl RequestException) (Inr 2))
          (eu_update\<lparr>content_length := Garbled\<rparr>)
   \<and> snd (do_POST (offline 0 (Inl RequestException) (Inr 2))
        (eu_update\<lparr>content_length := Garbled\<rparr>) prior_state) = prior_state
   \<and> \<not> accepted (offline 0 (Inl RequestException) (Inr 2)) (eu_update\<lparr>body := Stalled\<rparr>)
   \<and> snd (do_POST (offline 0 (Inl RequestException) (Inr 2))
        (eu_update\<lparr>body := Stalled\<rparr>) prior_state) = prior_state
   \<and> \<not> accepted ((offline 0 (Inl RequestException) (Inr 2))\<lparr>broken_after := Some 0\<rparr>)
          (eu_update\<lparr>body := Undecodable\<rparr>)
   \<and> snd (do_POST ((offline 0 (Inl RequestException) (Inr 2))\<lparr>broken_after := Some 0\<rparr>)
        (eu_update\<lparr>body := Undecodable\<rparr>) prior_state) = prior_state"
proof -
  let ?W = "offline 0 (Inl RequestException) (Inr 2)"
  let ?B = "(offline 0 (Inl RequestException) (Inr 2))\<lparr>broken_after := Some 0\<rparr>"
  let ?r1 = "eu_update\<lparr>path := ''/metrics''\<rparr>"
  let ?r3 = "eu_update\<lparr>body := Undecodable\<rparr>"
  let ?r4 = "update_request (JObj [(''region'', JStr ''eu'')])"
  let ?r5 = "update_request (JObj [(''region'', JStr ''eu''), (''carbon'', JStr ''high'')])"
  let ?r6 = "eu_update\<lparr>content_length := Garbled\<rparr>"
  let ?r7 = "update_request (JObj [(''region'', JStr ''eu''), (''carbon'', JInt (2 ^ 1024))])"
  let ?r8 = "eu_update\<lparr>body := Stalled\<rparr>"
  have io: "print_update ?W = None" "print_error ?W = None" "broken_after ?W = None"
    by (simp_all add: example_defs)
  have p: "path ?r1 \<noteq> ''/update_carbon''" "path eu_update = ''/update_carbon''"
    "path ?r3 = ''/update_carbon''" "path ?r4 = ''/update_carbon''" "path ?r5 = ''/update_carbon''"
    "path ?r7 = ''/update_carbon''"
    by (simp_all add: example_defs)
  have h: "readable eu_update" "readable ?r3" "readable ?r4" "readable ?r5" "readable ?r7"
    by (simp_all add: readable_def example_defs)
  have a: "accepted ?W eu_update" "\<not> accepted ?W ?r3" "\<not> accepted ?W ?r4" "\<not> accepted ?W ?r5"
    "\<not> accepted ?W ?r7" "\<not> accepted ?B ?r3" "\<not> accepted ?W ?r6" "\<not> accepted ?W ?r8"
    by (simp_all add: accepted_def readable_def decoded_def body_ok_def example_defs float_limit_def)
  have c1: "do_POST ?W ?r1 prior_state = (([Head 404], Returned), prior_state)"
    using do_POST_responses [of ?r1 ?W prior_state] p(1) io(3) by blast
  have c2: "fst (do_POST ?W eu_update prior_state) = ([Head 200, Payload ''ok''], Returned)"
    using do_POST_responses [of eu_update ?W prior_state] p(2) h(1) io a(1) by blast
  have c3: "do_POST ?W ?r3 prior_state = (([Head 400], Returned), prior_state)"
    using do_POST_responses [of ?r3 ?W prior_state] p(3) h(2) io a(2) by blast
  have c4: "do_POST ?W ?r4 prior_state = (([Head 400], Returned), prior_state)"
    using do_POST_responses [of ?r4 ?W prior_state] p(4) h(3) io a(3) by blast
  have c5: "do_POST ?W ?r5 prior_state = (([Head 400], Returned), prior_state)"
    using do_POST_responses [of ?r5 ?W prior_state] p(5) h(4) io a(4) by blast
  have c7: "do_POST ?W ?r7 prior_state = (([Head 400], Returned), prior_state)"
    using do_POST_responses [of ?r7 ?W prior_state] p(6) h(5) io a(5) by blast
  have c6: "snd (do_POST ?W ?r6 prior_state) = prior_state"
    using do_POST_responses [of ?r6 ?W prior_state] a(7) by blast
  have c8: "snd (do_POST ?B ?r3 prior_state) = prior_state"
    using do_POST_responses [of ?r3 ?B prior_state] a(6) by blast
  have c9: "snd (do_POST ?W ?r8 prior_state) = prior_state"
    using do_POST_responses [of ?r8 ?W prior_state] a(8) by blast
  from c1 h(1) a(1) c2 a(2) c3 a(3) c4 a(4) c5 a(5) c7 a(7) c6 a(8) c9 a(6) c8
  show ?thesis by blast
qed

text \<open>
  Claim C9: a POST to \<^verbatim>\<open>/update_carbon\<close> with an acceptable body for a region writes the
  value into the fallback table \<open>carbon_map\<close> as well as into the cache (and is answered with
  200 "ok" when its log line is printed and the connection holds); so once the TTL has expired
  and no provider yields a value, the resolver returns the ingested value for that region,
  whatever the fallback table held before.
\<close>

theorem ingest_outlives_ttl:
  assumes "path rq = ''/update_carbon''" and "content_length rq = Numeric n" and "0 < n"
    and "body rq = Decoded (JObj kvs)"
    and "hashable (case map_of kvs ''region'' of None \<Rightarrow> JStr ''local'' | Some r \<Rightarrow> r) = Inr k"
    and "py_float (float_str W1) (case map_of kvs ''carbon'' of None \<Rightarrow> JNull | Some c \<Rightarrow> c) = Inr v"
  shows "(print_update W1 = None \<longrightarrow> broken_after W1 = None \<longrightarrow>
            fst (do_POST W1 rq st) = ([Head 200, Payload ''ok''], Returned))
         \<and> carbon_map (snd (do_POST W1 rq st)) k = Some v
         \<and> carbon_cache (snd (do_POST W1 rq st)) k = Some (v, now W1)
         \<and> (\<not> now W2 - now W1 < cache_ttl cfg \<longrightarrow> try_providers cfg W2 k = None \<longrightarrow>
              (\<exists>st2. get_carbon cfg W2 k (snd (do_POST W1 rq st)) = Inr (v, st2)))"
proof -
  have s: "snd (do_POST W1 rq st)
           = \<lparr>carbon_map = (carbon_map st)(k \<mapsto> v),
              carbon_cache = (carbon_cache st)(k \<mapsto> (v, now W1))\<rparr>"
    by (rule do_POST_state[OF assms])
  have a: "print_update W1 = None \<longrightarrow> broken_after W1 = None \<longrightarrow>
            fst (do_POST W1 rq st) = ([Head 200, Payload ''ok''], Returned)"
    using do_POST_ok[OF assms] by blast
  have b: "carbon_map (snd (do_POST W1 rq st)) k = Some v
         \<and> carbon_cache (snd (do_POST W1 rq st)) k = Some (v, now W1)
         \<and> (\<not> now W2 - now W1 < cache_ttl cfg \<longrightarrow> try_providers cfg W2 k = None \<longrightarrow>
              (\<exists>st2. get_carbon cfg W2 k (snd (do_POST W1 rq st)) = Inr (v, st2)))"
    unfolding s by (simp add: get_carbon_def refresh_def Let_def)
  from a b show ?thesis by blast
qed

theorem ingest_outlives_ttl_witness:
  "path eu_update = ''/update_carbon'' \<and> content_length eu_update = Numeric 40
   \<and> body eu_update = Decoded (JObj [(''region'', JStr ''eu''), (''carbon'', JInt 50)])
   \<and> carbon_map prior_state (KStr ''eu'') = Some 400
   \<and> fst (do_POST (offline 0 (Inl RequestException) (Inr 2)) eu_update prior_state)
       = ([Head 200, Payload ''ok''], Returned)
   \<and> carbon_map (snd (do_POST (offline 0 (Inl RequestException) (Inr 2)) eu_update prior_state))
        (KStr ''eu'') = Some 50
   \<and> \<not> now (offline 1000 (Inl RequestException) (Inr 2))
          - now (offline 0 (Inl RequestException) (Inr 2)) < cache_ttl default_config
   \<and> try_providers default_config (offline 1000 (Inl RequestException) (Inr 2)) (KStr ''eu'') = None
   \<and> (\<exists>st2. get_carbon default_config (offline 1000 (Inl RequestException) (Inr 2)) (KStr ''eu'')
               (snd (do_POST (offline 0 (Inl RequestException) (Inr 2)) eu_update prior_state))
             = Inr (50, st2))"
proof -
  let ?W1 = "offline 0 (Inl RequestException) (Inr 2)"
  let ?W2 = "offline 1000 (Inl RequestException) (Inr 2)"
  let ?kvs = "[(''region'', JStr ''eu''), (''carbon'', JInt 50)]"
  have h1: "path eu_update = ''/update_carbon''" by (simp add: example_defs)
  have h2: "content_length eu_update = Numeric 40" by (simp add: example_defs)
  have h3: "(0::int) < 40" by simp
  have h4: "body eu_update = Decoded (JObj ?kvs)" by (simp add: example_defs)
  have h5: "hashable (case map_of ?kvs ''region'' of None \<Rightarrow> JStr ''local'' | Some r \<Rightarrow> r)
              = Inr (KStr ''eu'')" by simp
  have h6: "py_float (float_str ?W1) (case map_of ?kvs ''carbon'' of None \<Rightarrow> JNull | Some c \<Rightarrow> c)
              = Inr 50" by (simp add: float_limit_def)
  have io: "print_update ?W1 = None" "broken_after ?W1 = None" by (simp_all add: example_defs)
  have m: "carbon_map prior_state (KStr ''eu'') = Some 400" by (simp add: example_defs)
  have t: "\<not> now ?W2 - now ?W1 < cache_ttl default_config" by (simp add: example_defs)
  have n: "try_providers default_config ?W2 (KStr ''eu'') = None"
    by (simp add: try_providers_def example_defs)
  note th = ingest_outlives_ttl [OF h1 h2 h3 h4 h5 h6, of prior_state ?W2 default_config]
  have a: "fst (do_POST ?W1 eu_update prior_state) = ([Head 200, Payload ''ok''], Returned)"
    using th io by blast
  have b: "carbon_map (snd (do_POST ?W1 eu_update prior_state)) (KStr ''eu'') = Some 50"
    using th by blast
  have g: "\<exists>st2. get_carbon default_config ?W2 (KStr ''eu'')
               (snd (do_POST ?W1 eu_update prior_state)) = Inr (50, st2)"
    using th t n by blast
  from h1 h2 h4 m a b t n g show ?thesis by blast
qed

text \<open>
  Claim C10: a POST to \<^verbatim>\<open>/update_carbon\<close> whose body has a numeric \<^verbatim>\<open>carbon\<close> and no
  \<^verbatim>\<open>region\<close> is stored under the key \<^verbatim>\<open>"local"\<close>, both in the fallback table and in the cache,
  and answered with 200 "ok" (when its log line is printed and the connection holds, never
  with 400 for the missing region); that is the region the controller loop scores, so an
  iteration within the TTL publishes the posted value as its carbon intensity.
\<close>

theorem missing_region_is_local:
  assumes "path rq = ''/update_carbon''" and "content_length rq = Numeric n" and "0 < n"
    and "body rq = Decoded (JObj kvs)" and "map_of kvs ''region'' = None"
    and "map_of kvs ''carbon'' = Some c" and "py_float (float_str W) c = Inr v"
  shows "(print_update W = None \<longrightarrow> broken_after W = None \<longrightarrow>
            fst (do_POST W rq st) = ([Head 200, Payload ''ok''], Returned))
         \<and> snd (do_POST W rq st)
             = \<lparr>carbon_map = (carbon_map st)(KStr ''local'' \<mapsto> v),
                carbon_cache = (carbon_cache st)(KStr ''local'' \<mapsto> (v, now W))\<rparr>
         \<and> (slo_p95_ms cfg \<noteq> 0 \<longrightarrow> now W2 - now W < cache_ttl cfg \<longrightarrow>
              (\<exists>q sc. cycle cfg W2 (snd (do_POST W rq st))
                         = Inr (q, sc, snd (do_POST W rq st))
                       \<and> carbon_g sc = v))"
proof -
  let ?st1 = "\<lparr>carbon_map = (carbon_map st)(KStr ''local'' \<mapsto> v),
               carbon_cache = (carbon_cache st)(KStr ''local'' \<mapsto> (v, now W))\<rparr>"
  have k: "hashable (case map_of kvs ''region'' of None \<Rightarrow> JStr ''local'' | Some r \<Rightarrow> r)
             = Inr (KStr ''local'')"
    using assms(5) by simp
  have f: "py_float (float_str W) (case map_of kvs ''carbon'' of None \<Rightarrow> JNull | Some c \<Rightarrow> c)
             = Inr v"
    using assms(6,7) by simp
  have s: "snd (do_POST W rq st) = ?st1"
    by (rule do_POST_state[OF assms(1-4) k f])
  have a: "print_update W = None \<longrightarrow> broken_after W = None \<longrightarrow>
            fst (do_POST W rq st) = ([Head 200, Payload ''ok''], Returned)"
    using do_POST_ok[OF assms(1-4) k f] by blast
  have "\<exists>q sc. cycle cfg W2 ?st1 = Inr (q, sc, ?st1) \<and> carbon_g sc = v"
    if T: "slo_p95_ms cfg \<noteq> 0" and fresh: "now W2 - now W < cache_ttl cfg"
  proof -
    from query_p95_total obtain p95 where q: "query_p95 W2 = Inr p95" by blast
    from slo_score_returns[OF T] obtain s where s: "slo_score cfg p95 = Inr s" by blast
    have g: "get_carbon cfg W2 (KStr ''local'') ?st1 = Inr (v, ?st1)"
      using fresh by (simp add: get_carbon_def)
    show ?thesis
      using q s g
      by (cases "read_replicas W2") (simp_all add: cycle_def compute_scores_def then_do_def Let_def)
  qed
  with a s show ?thesis by simp
qed

theorem missing_region_is_local_witness:
  "path (update_request (JObj [(''carbon'', JInt 50)])) = ''/update_carbon''
   \<and> content_length (update_request (JObj [(''carbon'', JInt 50)])) = Numeric 40
   \<and> body (update_request (JObj [(''carbon'', JInt 50)])) = Decoded (JObj [(''carbon'', JInt 50)])
   \<and> map_of [(''carbon'', JInt 50)] ''region'' = None
   \<and> do_POST (offline 0 (prom_sample ''0.25'') (Inr 3))
        (update_request (JObj [(''carbon'', JInt 50)])) prior_state
       = (([Head 200, Payload ''ok''], Returned),
          \<lparr>carbon_map = (carbon_map prior_state)(KStr ''local'' \<mapsto> 50),
           carbon_cache = (carbon_cache prior_state)(KStr ''local'' \<mapsto> (50, 0))\<rparr>)
   \<and> slo_p95_ms default_config \<noteq> 0
   \<and> now (offline 15 (prom_sample ''0.25'') (Inr 3)) - now (offline 0 (prom_sample ''0.25'') (Inr 3))
       < cache_ttl default_config
   \<and> (\<exists>q sc. cycle default_config (offline 15 (prom_sample ''0.25'') (Inr 3))
                (snd (do_POST (offline 0 (prom_sample ''0.25'') (Inr 3))
                        (update_request (JObj [(''carbon'', JInt 50)])) prior_state))
              = Inr (q, sc, snd (do_POST (offline 0 (prom_sample ''0.25'') (Inr 3))
                        (update_request (JObj [(''carbon'', JInt 50)])) prior_state))
            \<and> carbon_g sc = 50)"
proof -
  let ?W = "offline 0 (prom_sample ''0.25'') (Inr 3)"
  let ?W2 = "offline 15 (prom_sample ''0.25'') (Inr 3)"
  let ?rq = "update_request (JObj [(''carbon'', JInt 50)])"
  have h1: "path ?rq = ''/update_carbon''" by (simp add: example_defs)
  have h2: "content_length ?rq = Numeric 40" by (simp add: example_defs)
  have h3: "(0::int) < 40" by simp
  have h4: "body ?rq = Decoded (JObj [(''carbon'', JInt 50)])" by (simp add: example_defs)
  have h5: "map_of [(''carbon'', JInt 50)] ''region'' = None" by simp
  have h6: "map_of [(''carbon'', JInt 50)] ''carbon'' = Some (JInt 50)" by simp
  have h7: "py_float (float_str ?W) (JInt 50) = Inr 50" by (simp add: float_limit_def)
  have io: "print_update ?W = None" "broken_after ?W = None" by (simp_all add: example_defs)
  have t: "slo_p95_ms default_config \<noteq> 0" "now ?W2 - now ?W < cache_ttl default_config"
    by (simp_all add: example_defs)
  have n0: "now ?W = 0" by (simp add: offline_def)
  note th = missing_region_is_local [OF h1 h2 h3 h4 h5 h6 h7, of prior_state default_config ?W2]
  have a1: "fst (do_POST ?W ?rq prior_state) = ([Head 200, Payload ''ok''], Returned)"
    using th io by blast
  have a2: "snd (do_POST ?W ?rq prior_state)
       = \<lparr>carbon_map = (carbon_map prior_state)(KStr ''local'' \<mapsto> 50),
          carbon_cache = (carbon_cache prior_state)(KStr ''local'' \<mapsto> (50, 0))\<rparr>"
    using th [THEN conjunct2, THEN conjunct1] by (simp add: n0)
  have a: "do_POST ?W ?rq prior_state
       = (([Head 200, Payload ''ok''], Returned),
          \<lparr>carbon_map = (carbon_map prior_state)(KStr ''local'' \<mapsto> 50),
           carbon_cache = (carbon_cache prior_state)(KStr ''local'' \<mapsto> (50, 0))\<rparr>)"
    using a1 a2 by (simp add: prod_eq_iff)
  have b: "\<exists>q sc. cycle default_config ?W2 (snd (do_POST ?W ?rq prior_state))
              = Inr (q, sc, snd (do_POST ?W ?rq prior_state)) \<and> carbon_g sc = 50"
    using th [THEN conjunct2, THEN conjunct2] t by blast
  from h1 h2 h4 h5 t a b show ?thesis by blast
qed

end
